theory Spec2Isabelle
  imports Main "HOL-Library.Word"
begin

unbundle bit_operations_syntax

section \<open>Names, diagnostics and exceptions\<close>

text \<open>
  Modelled from the spec: the delimiters and prefixes of \<^verbatim>\<open>./constants\<close>, which
  \<^verbatim>\<open>program.ts\<close> imports; the spec fixes them bit-exactly (path delimiter \<^verbatim>\<open>/\<close>,
  static delimiter \<^verbatim>\<open>.\<close>, instance delimiter \<^verbatim>\<open>#\<close>, accessor prefixes
  \<^verbatim>\<open>get:\<close> and \<^verbatim>\<open>set:\<close>).
\<close>

definition PATH_DELIMITER :: string where "PATH_DELIMITER = ''/''"
definition STATIC_DELIMITER :: string where "STATIC_DELIMITER = ''.''"
definition INSTANCE_DELIMITER :: string where "INSTANCE_DELIMITER = ''#''"
definition GETTER_PREFIX :: string where "GETTER_PREFIX = ''get:''"
definition SETTER_PREFIX :: string where "SETTER_PREFIX = ''set:''"

text \<open>The diagnostic codes \<^verbatim>\<open>program.ts\<close> emits.\<close>

datatype DiagnosticCode =
    Duplicate_identifier_0
  | Export_declaration_conflicts_with_exported_declaration_of_0
  | Module_0_has_no_exported_member_1
  | Cannot_find_name_0
  | Property_0_does_not_exist_on_type_1
  | Expected_0_type_arguments_but_got_1
  | this_cannot_be_referenced_in_current_location
  | Operation_not_supported

text \<open>
  A reported diagnostic: its code and its substitution arguments. The source ranges the
  emitter also receives are attributes of the parser's nodes and are not modelled.
\<close>

type_synonym DiagnosticMessage = "DiagnosticCode \<times> string list"

text \<open>What the source throws: \<^verbatim>\<open>throw new Error(msg)\<close>, a failed \<^verbatim>\<open>assert\<close>, and
  the \<^verbatim>\<open>TypeError\<close> of reading a property of \<^verbatim>\<open>undefined\<close>.\<close>

datatype exception = Error string | AssertionError | TypeError

datatype Target = WASM32 | WASM64

type_synonym ref = nat

text \<open>
  Modelled from the spec: the \<^verbatim>\<open>Type\<close> values of \<^verbatim>\<open>./types\<close> that
  \<^verbatim>\<open>program.ts\<close> names (the primitive table, the pointer-sized variants and the class
  type \<^verbatim>\<open>asClass\<close> derives from a pointer-sized type).
\<close>

datatype Type =
    Type_i8 | Type_i16 | Type_i32 | Type_i64 | Type_isize32 | Type_isize64
  | Type_u8 | Type_u16 | Type_u32 | Type_u64 | Type_usize32 | Type_usize64
  | Type_bool | Type_f32 | Type_f64 | Type_void
  | Type_asClass Type ref

section \<open>The syntax tree the binder reads\<close>

text \<open>The modifier kinds; \<open>CONST_MODIFIER\<close> is \<^verbatim>\<open>ModifierKind.CONST\<close>.\<close>

datatype ModifierKind =
    IMPORT | EXPORT | DECLARE | CONST_MODIFIER | STATIC | GET | SET | READONLY
  | PRIVATE | PROTECTED | PUBLIC | ABSTRACT

text \<open>A decorator: its name expression (an identifier or anything else) and the number
  of its arguments.\<close>

datatype DecoratorName = DecoratorIdentifier string | DecoratorOther

record Decorator =
  dec_name :: DecoratorName
  dec_arguments :: nat

text \<open>A type node: \<^verbatim>\<open>identifier.name\<close>, \<^verbatim>\<open>typeArguments\<close> and
  \<^verbatim>\<open>range.source.internalPath\<close>.\<close>

datatype TypeNode =
  TypeNode (tn_identifier: string) (tn_typeArguments: "TypeNode list") (tn_source: string)

text \<open>What every declaration statement carries: \<^verbatim>\<open>name.name\<close>,
  \<^verbatim>\<open>internalName\<close>, the nullable \<^verbatim>\<open>modifiers\<close> and \<^verbatim>\<open>decorators\<close>.\<close>

record Decl =
  d_name :: string
  d_internalName :: string
  d_modifiers :: "ModifierKind list option"
  d_decorators :: "Decorator list option"

text \<open>A function or method declaration adds the names of its type parameters, its
  parameters (name and optional type annotation) and its optional return type.\<close>

record FunctionDecl = Decl +
  fd_typeParameters :: "string list"
  fd_parameters :: "(string \<times> TypeNode option) list"
  fd_returnType :: "TypeNode option"

record EnumValueDeclaration =
  ev_name :: string
  ev_internalName :: string

text \<open>An export member: \<^verbatim>\<open>identifier.name\<close>, \<^verbatim>\<open>externalIdentifier.name\<close>,
  \<^verbatim>\<open>range.source.internalPath\<close> and the \<^verbatim>\<open>path.value\<close> of its statement (read only
  when a re-export is reported).\<close>

record ExportMember =
  em_identifier :: string
  em_externalIdentifier :: string
  em_source :: string
  em_path :: string

record ImportDeclaration =
  id_internalName :: string
  id_externalIdentifier :: string
  id_path :: string

datatype Statement =
    ClassDeclaration Decl "string list" "Statement list"
  | EnumDeclaration Decl "EnumValueDeclaration list"
  | ExportStatement "ExportMember list" "string option"
  | FunctionDeclaration FunctionDecl
  | ImportStatement "ImportDeclaration list option" "string option" string string
  | InterfaceDeclaration Decl "string list" "Statement list"
  | NamespaceDeclaration Decl "Statement list"
  | TypeDeclaration string TypeNode
  | VariableStatement "Decl list"
  | FieldDeclaration Decl
  | MethodDeclaration FunctionDecl
  | OtherStatement

section \<open>Elements, the object store and the program\<close>

datatype ElementKind =
    GLOBAL | LOCAL | ENUM | ENUMVALUE | FUNCTION_PROTOTYPE | FUNCTION
  | CLASS_PROTOTYPE | CLASS | INTERFACE_PROTOTYPE | INTERFACE
  | FIELD_PROTOTYPE | FIELD | PROPERTY | NAMESPACE

definition Flags_NONE :: "32 word" where "Flags_NONE = 0"
definition Flags_COMPILED :: "32 word" where "Flags_COMPILED = push_bit 0 1"
definition Flags_IMPORTED :: "32 word" where "Flags_IMPORTED = push_bit 1 1"
definition Flags_EXPORTED :: "32 word" where "Flags_EXPORTED = push_bit 2 1"
definition Flags_BUILTIN :: "32 word" where "Flags_BUILTIN = push_bit 3 1"
definition Flags_DECLARED :: "32 word" where "Flags_DECLARED = push_bit 4 1"
definition Flags_GENERIC :: "32 word" where "Flags_GENERIC = push_bit 5 1"
definition Flags_CONSTANT :: "32 word" where "Flags_CONSTANT = push_bit 6 1"
definition Flags_CONSTANT_VALUE :: "32 word" where "Flags_CONSTANT_VALUE = push_bit 7 1"
definition Flags_INSTANCE :: "32 word" where "Flags_INSTANCE = push_bit 8 1"
definition Flags_GETTER :: "32 word" where "Flags_GETTER = push_bit 9 1"
definition Flags_SETTER :: "32 word" where "Flags_SETTER = push_bit 10 1"
definition Flags_GLOBAL :: "32 word" where "Flags_GLOBAL = push_bit 11 1"
definition Flags_READONLY :: "32 word" where "Flags_READONLY = push_bit 12 1"
definition Flags_PUBLIC :: "32 word" where "Flags_PUBLIC = push_bit 13 1"
definition Flags_PROTECTED :: "32 word" where "Flags_PROTECTED = push_bit 14 1"
definition Flags_PRIVATE :: "32 word" where "Flags_PRIVATE = push_bit 15 1"

text \<open>
  One record for the class hierarchy under \<^verbatim>\<open>Element\<close>: the base fields, then the
  fields of the subclasses, each at its constructor's default where a kind does not have
  it. Objects live in a store and are named by references, since the binder shares one
  object between \<^verbatim>\<open>elements\<close>, \<^verbatim>\<open>exports\<close> and the member maps and mutates it in
  place. Of the declaration back-references only a function prototype's is read after
  construction, so it is the one kept. \<open>prototype\<close> is read on \<open>FUNCTION\<close> elements only,
  where it is never null.
\<close>

record Element =
  kind :: ElementKind
  simpleName :: string
  internalName :: string
  flags :: "32 word"
  members :: "(string \<rightharpoonup> ref) option"
  namespace :: "ref option"
  instanceMembers :: "(string \<rightharpoonup> ref) option"
  fn_declaration :: "FunctionDecl option"
  classPrototype :: "ref option"
  instances :: "string \<rightharpoonup> ref"
  getterPrototype :: "ref option"
  setterPrototype :: "ref option"
  parent :: "ref option"
  parentEnum :: "ref option"
  prototype :: ref
  typeArguments :: "Type list option"
  parameters :: "(string \<times> Type) list"
  returnType :: "Type option"
  instanceMethodOf :: "ref option"
  locals :: "string \<rightharpoonup> ref"
  contextualTypeArguments :: "(string \<rightharpoonup> Type) option"
  local_index :: nat
  resolved_type :: "Type option"

text \<open>
  The program. \<^verbatim>\<open>elements\<close> and \<^verbatim>\<open>exports\<close> map a name to a reference or to
  \<^verbatim>\<open>undefined\<close>: the binder stores the result of a \<^verbatim>\<open>Map.get\<close> without testing it,
  so a key can be present with no element behind it.
\<close>

record Program =
  sources :: "Statement list list"
  target :: Target
  elements :: "string \<rightharpoonup> ref option"
  types :: "string \<rightharpoonup> Type"
  typeAliases :: "string \<rightharpoonup> TypeNode"
  exports :: "string \<rightharpoonup> ref option"
  diagnostics :: "DiagnosticMessage list"
  heap :: "ref \<Rightarrow> Element"
  nextRef :: ref

text \<open>\<^verbatim>\<open>Map.has\<close> and \<^verbatim>\<open>Map.get\<close> on such a map; \<^verbatim>\<open>get\<close> of an absent key and of a
  key bound to \<^verbatim>\<open>undefined\<close> are both falsy.\<close>

definition has :: "('k \<rightharpoonup> 'v) \<Rightarrow> 'k \<Rightarrow> bool" where
  "has m k = (m k \<noteq> None)"

definition get :: "('k \<rightharpoonup> 'v option) \<Rightarrow> 'k \<Rightarrow> 'v option" where
  "get m k = (case m k of None \<Rightarrow> None | Some v \<Rightarrow> v)"

text \<open>Modelled from the spec: \<^verbatim>\<open>DiagnosticEmitter.error\<close> of \<^verbatim>\<open>./diagnostics\<close>
  appends the diagnostic to the program's list.\<close>

definition error :: "DiagnosticCode \<Rightarrow> string list \<Rightarrow> Program \<Rightarrow> Program" where
  "error code args p = p\<lparr>diagnostics := diagnostics p @ [(code, args)]\<rparr>"

text \<open>\<^verbatim>\<open>n.toString(10)\<close> for a count.\<close>

fun toString10 :: "nat \<Rightarrow> string" where
  "toString10 n =
     (if n < 10 then [''0123456789'' ! n]
      else toString10 (n div 10) @ [''0123456789'' ! (n mod 10)])"

declare toString10.simps [simp del]

text \<open>The content of a store cell no object has been allocated in; it is never read.\<close>

definition nullElement :: Element where
  "nullElement = \<lparr>kind = GLOBAL, simpleName = [], internalName = [], flags = Flags_NONE,
     members = None, namespace = None, instanceMembers = None, fn_declaration = None,
     classPrototype = None, instances = Map.empty, getterPrototype = None,
     setterPrototype = None, parent = None, parentEnum = None, prototype = 0,
     typeArguments = None, parameters = [], returnType = None, instanceMethodOf = None,
     locals = Map.empty, contextualTypeArguments = None, local_index = 0,
     resolved_type = None\<rparr>"

text \<open>\<^verbatim>\<open>new Program()\<close>: no sources, no diagnostics, empty maps, an empty store.\<close>

definition newProgram :: Program where
  "newProgram = \<lparr>sources = [], target = WASM32, elements = Map.empty, types = Map.empty,
     typeAliases = Map.empty, exports = Map.empty, diagnostics = [],
     heap = (\<lambda>r. nullElement), nextRef = 0\<rparr>"

text \<open>\<^verbatim>\<open>new\<close>: the object gets the next free reference.\<close>

definition alloc :: "Element \<Rightarrow> Program \<Rightarrow> ref \<times> Program" where
  "alloc e p = (nextRef p, p\<lparr>heap := (heap p)(nextRef p := e), nextRef := Suc (nextRef p)\<rparr>)"

text \<open>An assignment to a field of the object behind a reference.\<close>

definition update :: "ref \<Rightarrow> (Element \<Rightarrow> Element) \<Rightarrow> Program \<Rightarrow> Program" where
  "update r f p = p\<lparr>heap := (heap p)(r := f (heap p r))\<rparr>"

definition isExported :: "Element \<Rightarrow> bool" where
  "isExported e = (flags e AND Flags_EXPORTED \<noteq> 0)"

definition isGeneric :: "Element \<Rightarrow> bool" where
  "isGeneric e = (flags e AND Flags_GENERIC \<noteq> 0)"

definition isInstance :: "Element \<Rightarrow> bool" where
  "isInstance e = (flags e AND Flags_INSTANCE \<noteq> 0)"

definition isSetter :: "Element \<Rightarrow> bool" where
  "isSetter e = (flags e AND Flags_SETTER \<noteq> 0)"

section \<open>Constructors\<close>

text \<open>The base constructor \<^verbatim>\<open>Element(program, simpleName, internalName)\<close>, with the
  \<^verbatim>\<open>kind\<close> the subclass initialises.\<close>

definition new_Element :: "ElementKind \<Rightarrow> string \<Rightarrow> string \<Rightarrow> Element" where
  "new_Element k sn inm = nullElement\<lparr>kind := k, simpleName := sn, internalName := inm\<rparr>"

text \<open>
  Every constructor with a declaration loops over its modifiers with a \<^verbatim>\<open>switch\<close> of its
  own: a modifier sets a flag, or is skipped, or is unexpected and throws. The loop is
  \<open>applyModifiers\<close>; the switch is its first argument, giving the flag to set
  (\<open>Flags_NONE\<close> for a skipped modifier) or the exception.
\<close>

fun applyModifiers ::
    "(ModifierKind \<Rightarrow> exception + 32 word) \<Rightarrow> ModifierKind list \<Rightarrow> 32 word \<Rightarrow> exception + 32 word"
where
  "applyModifiers sw [] fl = Inr fl"
| "applyModifiers sw (m # ms) fl =
     (case sw m of Inl e \<Rightarrow> Inl e | Inr f \<Rightarrow> applyModifiers sw ms (fl OR f))"

definition Namespace_modifier :: "ModifierKind \<Rightarrow> exception + 32 word" where
  "Namespace_modifier m =
     (case m of IMPORT \<Rightarrow> Inr Flags_IMPORTED | EXPORT \<Rightarrow> Inr Flags_EXPORTED
      | DECLARE \<Rightarrow> Inr Flags_DECLARED | _ \<Rightarrow> Inl (Error ''unexpected modifier''))"

definition Enum_modifier :: "ModifierKind \<Rightarrow> exception + 32 word" where
  "Enum_modifier m =
     (case m of EXPORT \<Rightarrow> Inr Flags_EXPORTED | IMPORT \<Rightarrow> Inr Flags_IMPORTED
      | DECLARE \<Rightarrow> Inr Flags_DECLARED | CONST_MODIFIER \<Rightarrow> Inr Flags_CONSTANT
      | _ \<Rightarrow> Inl (Error ''unexpected modifier''))"

definition Global_modifier :: "ModifierKind \<Rightarrow> exception + 32 word" where
  "Global_modifier m =
     (case m of IMPORT \<Rightarrow> Inr Flags_IMPORTED | EXPORT \<Rightarrow> Inr Flags_EXPORTED
      | CONST_MODIFIER \<Rightarrow> Inr Flags_CONSTANT | DECLARE \<Rightarrow> Inr Flags_DECLARED
      | STATIC \<Rightarrow> Inr Flags_NONE | _ \<Rightarrow> Inl (Error ''unexpected modifier''))"

definition FunctionPrototype_modifier :: "ModifierKind \<Rightarrow> exception + 32 word" where
  "FunctionPrototype_modifier m =
     (case m of IMPORT \<Rightarrow> Inr Flags_IMPORTED | EXPORT \<Rightarrow> Inr Flags_EXPORTED
      | DECLARE \<Rightarrow> Inr Flags_DECLARED | GET \<Rightarrow> Inr Flags_GETTER | SET \<Rightarrow> Inr Flags_SETTER
      | STATIC \<Rightarrow> Inr Flags_NONE | ABSTRACT \<Rightarrow> Inr Flags_NONE | PRIVATE \<Rightarrow> Inr Flags_NONE
      | PROTECTED \<Rightarrow> Inr Flags_NONE | PUBLIC \<Rightarrow> Inr Flags_NONE
      | _ \<Rightarrow> Inl (Error ''unexpected modifier''))"

definition FieldPrototype_modifier :: "ModifierKind \<Rightarrow> exception + 32 word" where
  "FieldPrototype_modifier m =
     (case m of EXPORT \<Rightarrow> Inr Flags_EXPORTED | READONLY \<Rightarrow> Inr Flags_READONLY
      | PRIVATE \<Rightarrow> Inr Flags_NONE | PROTECTED \<Rightarrow> Inr Flags_NONE | PUBLIC \<Rightarrow> Inr Flags_NONE
      | STATIC \<Rightarrow> Inr Flags_NONE | _ \<Rightarrow> Inl AssertionError)"

definition ClassPrototype_modifier :: "ModifierKind \<Rightarrow> exception + 32 word" where
  "ClassPrototype_modifier m =
     (case m of IMPORT \<Rightarrow> Inr Flags_IMPORTED | EXPORT \<Rightarrow> Inr Flags_EXPORTED
      | DECLARE \<Rightarrow> Inr Flags_DECLARED | _ \<Rightarrow> Inl (Error ''unexpected modifier''))"

text \<open>The flags a constructor computes from a nullable declaration's nullable modifiers.\<close>

definition declaredFlags ::
    "(ModifierKind \<Rightarrow> exception + 32 word) \<Rightarrow> ModifierKind list option option \<Rightarrow> exception + 32 word"
where
  "declaredFlags sw mods =
     (case mods of Some (Some ms) \<Rightarrow> applyModifiers sw ms Flags_NONE | _ \<Rightarrow> Inr Flags_NONE)"

definition new_Namespace :: "string \<Rightarrow> string \<Rightarrow> Decl option \<Rightarrow> exception + Element" where
  "new_Namespace sn inm decl =
     (case declaredFlags Namespace_modifier (map_option d_modifiers decl) of
        Inl e \<Rightarrow> Inl e
      | Inr fl \<Rightarrow> Inr ((new_Element NAMESPACE sn inm)\<lparr>flags := fl\<rparr>))"

definition new_Enum :: "string \<Rightarrow> string \<Rightarrow> Decl option \<Rightarrow> exception + Element" where
  "new_Enum sn inm decl =
     (case declaredFlags Enum_modifier (map_option d_modifiers decl) of
        Inl e \<Rightarrow> Inl e
      | Inr fl \<Rightarrow> Inr ((new_Element ENUM sn inm)\<lparr>flags := fl\<rparr>))"

definition new_EnumValue :: "ref \<Rightarrow> string \<Rightarrow> string \<Rightarrow> Element" where
  "new_EnumValue enm sn inm = (new_Element ENUMVALUE sn inm)\<lparr>parentEnum := Some enm\<rparr>"

text \<open>\<^verbatim>\<open>new Global(program, simpleName, internalName, declaration, type)\<close>: without a
  declaration it is a built-in and has a constant value.\<close>

definition new_Global ::
    "string \<Rightarrow> string \<Rightarrow> Decl option \<Rightarrow> Type option \<Rightarrow> exception + Element" where
  "new_Global sn inm decl ty =
     (case decl of
        None \<Rightarrow> Inr ((new_Element GLOBAL sn inm)\<lparr>flags := Flags_CONSTANT_VALUE, resolved_type := ty\<rparr>)
      | Some d \<Rightarrow>
         (case declaredFlags Global_modifier (Some (d_modifiers d)) of
            Inl e \<Rightarrow> Inl e
          | Inr fl \<Rightarrow> Inr ((new_Element GLOBAL sn inm)\<lparr>flags := fl, resolved_type := ty\<rparr>)))"

definition new_Local :: "string \<Rightarrow> nat \<Rightarrow> Type option \<Rightarrow> Element" where
  "new_Local sn i ty = (new_Element LOCAL sn sn)\<lparr>local_index := i, resolved_type := ty\<rparr>"

definition new_FunctionPrototype ::
    "string \<Rightarrow> string \<Rightarrow> FunctionDecl option \<Rightarrow> ref option \<Rightarrow> exception + Element" where
  "new_FunctionPrototype sn inm decl cp =
     (case declaredFlags FunctionPrototype_modifier (map_option d_modifiers decl) of
        Inl e \<Rightarrow> Inl e
      | Inr fl \<Rightarrow>
         (let fl1 = (case decl of
                       None \<Rightarrow> fl
                     | Some d \<Rightarrow> if length (fd_typeParameters d) \<noteq> 0 then fl OR Flags_GENERIC else fl);
              fl2 = (if cp \<noteq> None then fl1 OR Flags_INSTANCE else fl1)
          in Inr ((new_Element FUNCTION_PROTOTYPE sn inm)
                   \<lparr>flags := fl2, fn_declaration := decl, classPrototype := cp\<rparr>)))"

definition new_FieldPrototype :: "ref \<Rightarrow> string \<Rightarrow> string \<Rightarrow> Decl option \<Rightarrow> exception + Element" where
  "new_FieldPrototype cp sn inm decl =
     (case declaredFlags FieldPrototype_modifier (map_option d_modifiers decl) of
        Inl e \<Rightarrow> Inl e
      | Inr fl \<Rightarrow> Inr ((new_Element FIELD_PROTOTYPE sn inm)\<lparr>flags := fl, classPrototype := Some cp\<rparr>))"

definition new_Property :: "string \<Rightarrow> string \<Rightarrow> ref \<Rightarrow> Element" where
  "new_Property sn inm cp = (new_Element PROPERTY sn inm)\<lparr>parent := Some cp\<rparr>"

text \<open>\<^verbatim>\<open>new ClassPrototype(...)\<close>; the declaration is given by its modifiers and the
  names of its type parameters.\<close>

definition new_ClassPrototype ::
    "string \<Rightarrow> string \<Rightarrow> (Decl \<times> string list) option \<Rightarrow> exception + Element" where
  "new_ClassPrototype sn inm decl =
     (case declaredFlags ClassPrototype_modifier (map_option (d_modifiers \<circ> fst) decl) of
        Inl e \<Rightarrow> Inl e
      | Inr fl \<Rightarrow>
         (let fl1 = (case decl of
                       None \<Rightarrow> fl
                     | Some (d, tps) \<Rightarrow> if length tps \<noteq> 0 then fl OR Flags_GENERIC else fl)
          in Inr ((new_Element CLASS_PROTOTYPE sn inm)\<lparr>flags := fl1\<rparr>)))"

text \<open>\<^verbatim>\<open>new InterfacePrototype(...)\<close> runs the class prototype's constructor and then
  sets its own \<^verbatim>\<open>kind\<close>.\<close>

definition new_InterfacePrototype ::
    "string \<Rightarrow> string \<Rightarrow> (Decl \<times> string list) option \<Rightarrow> exception + Element" where
  "new_InterfacePrototype sn inm decl =
     (case new_ClassPrototype sn inm decl of
        Inl e \<Rightarrow> Inl e
      | Inr c \<Rightarrow> Inr (c\<lparr>kind := INTERFACE_PROTOTYPE\<rparr>))"

text \<open>
  Modelled from the spec: \<^verbatim>\<open>hasModifier\<close> of \<^verbatim>\<open>./ast\<close> tells whether the nullable
  modifier list holds a modifier of the kind.
\<close>

definition hasModifier :: "ModifierKind \<Rightarrow> ModifierKind list option \<Rightarrow> bool" where
  "hasModifier k mods = (case mods of None \<Rightarrow> False | Some ms \<Rightarrow> List.member ms k)"

definition hasDecorator :: "string \<Rightarrow> Decorator list option \<Rightarrow> bool" where
  "hasDecorator name decorators =
     (case decorators of
        None \<Rightarrow> False
      | Some ds \<Rightarrow> list_ex (\<lambda>d. dec_name d = DecoratorIdentifier name \<and> dec_arguments d \<le> 1) ds)"

section \<open>The binder\<close>

text \<open>
  The handlers return the program they leave behind, or the exception they throw. After a
  diagnostic a handler returns from its own scope and the pass goes on.

  Three steps recur in the handlers and are written once here: the insertion into a
  container's \<^verbatim>\<open>members\<close> map (created on first use, a taken key is a duplicate), the
  same for \<^verbatim>\<open>instanceMembers\<close>, and the insertion into the file-level \<^verbatim>\<open>exports\<close>.
  Each returns whether the handler goes on.
\<close>

definition addMember :: "ref \<Rightarrow> string \<Rightarrow> ref \<Rightarrow> string \<Rightarrow> Program \<Rightarrow> bool \<times> Program" where
  "addMember container key el reported p =
     (case members (heap p container) of
        Some ms \<Rightarrow>
          if has ms key then (False, error Duplicate_identifier_0 [reported] p)
          else (True, update container (\<lambda>c. c\<lparr>members := Some (ms(key \<mapsto> el))\<rparr>) p)
      | None \<Rightarrow> (True, update container (\<lambda>c. c\<lparr>members := Some [key \<mapsto> el]\<rparr>) p))"

definition addFileExport :: "string \<Rightarrow> ref \<Rightarrow> Program \<Rightarrow> bool \<times> Program" where
  "addFileExport inm el p =
     (if has (exports p) inm
      then (False, error Export_declaration_conflicts_with_exported_declaration_of_0 [inm] p)
      else (True, p\<lparr>exports := (exports p)(inm \<mapsto> Some el)\<rparr>))"

text \<open>The program-level alias of a declaration decorated \<^verbatim>\<open>@global\<close>.\<close>

definition addGlobalAlias :: "Decorator list option \<Rightarrow> string \<Rightarrow> string \<Rightarrow> ref \<Rightarrow> Program \<Rightarrow> Program" where
  "addGlobalAlias decorators name inm el p =
     (if hasDecorator ''global'' decorators then
        (if has (elements p) name then error Duplicate_identifier_0 [inm] p
         else p\<lparr>elements := (elements p)(name \<mapsto> Some el)\<rparr>)
      else p)"

subsection \<open>Class members\<close>

definition initializeField :: "Decl \<Rightarrow> ref \<Rightarrow> Program \<Rightarrow> exception + Program" where
  "initializeField decl cp p =
     (let name = d_name decl; inm = d_internalName decl in
      if hasModifier STATIC (d_modifiers decl) then
        (if has (elements p) inm then Inr (error Duplicate_identifier_0 [inm] p)
         else if (case members (heap p cp) of Some ms \<Rightarrow> has ms name | None \<Rightarrow> False)
         then Inr (error Duplicate_identifier_0 [inm] p)
         else
           (case new_Global name inm (Some decl) None of
              Inl e \<Rightarrow> Inl e
            | Inr g \<Rightarrow>
               (let (staticField, p1) = alloc g p;
                    ms = (case members (heap p1 cp) of Some ms \<Rightarrow> ms | None \<Rightarrow> Map.empty);
                    p2 = update cp (\<lambda>c. c\<lparr>members := Some (ms(name \<mapsto> staticField))\<rparr>) p1
                in Inr (p2\<lparr>elements := (elements p2)(inm \<mapsto> Some staticField)\<rparr>))))
      else
        (if (case instanceMembers (heap p cp) of Some ms \<Rightarrow> has ms name | None \<Rightarrow> False)
         then Inr (error Duplicate_identifier_0 [inm] p)
         else
           (case new_FieldPrototype cp name inm (Some decl) of
              Inl e \<Rightarrow> Inl e
            | Inr f \<Rightarrow>
               (let (instanceField, p1) = alloc f p;
                    ms = (case instanceMembers (heap p1 cp) of Some ms \<Rightarrow> ms | None \<Rightarrow> Map.empty)
                in Inr (update cp (\<lambda>c. c\<lparr>instanceMembers := Some (ms(name \<mapsto> instanceField))\<rparr>) p1)))))"

definition initializeAccessor :: "FunctionDecl \<Rightarrow> ref \<Rightarrow> bool \<Rightarrow> Program \<Rightarrow> exception + Program" where
  "initializeAccessor decl cp isGetter p =
     (let propertyName = d_name decl; internalPropertyName = d_internalName decl;
          existing = get (elements p) internalPropertyName
      in if (case existing of
               Some pe \<Rightarrow> kind (heap p pe) \<noteq> PROPERTY \<or>
                          (if isGetter then getterPrototype (heap p pe) \<noteq> None
                           else setterPrototype (heap p pe) \<noteq> None)
             | None \<Rightarrow> False)
         then Inr (error Duplicate_identifier_0 [internalPropertyName] p)
         else
           (let (propertyElement, p1) =
                  (case existing of
                     Some pe \<Rightarrow> (pe, p)
                   | None \<Rightarrow> alloc (new_Property propertyName internalPropertyName cp) p);
                name = (if isGetter then GETTER_PREFIX else SETTER_PREFIX) @ propertyName
            in if hasModifier STATIC (d_modifiers decl) then
                 (let internalStaticName = internalName (heap p1 cp) @ STATIC_DELIMITER @ name in
                  if has (elements p1) internalStaticName
                  then Inr (error Duplicate_identifier_0 [internalStaticName] p1)
                  else
                    (case new_FunctionPrototype name internalStaticName (Some decl) None of
                       Inl e \<Rightarrow> Inl e
                     | Inr f \<Rightarrow>
                        (let (staticPrototype, p2) = alloc f p1;
                             p3 = update propertyElement
                                    (\<lambda>c. if isGetter then c\<lparr>getterPrototype := Some staticPrototype\<rparr>
                                         else c\<lparr>setterPrototype := Some staticPrototype\<rparr>) p2;
                             ms = (case members (heap p3 cp) of Some ms \<Rightarrow> ms | None \<Rightarrow> Map.empty);
                             p4 = update cp (\<lambda>c. c\<lparr>members := Some (ms(propertyName \<mapsto> propertyElement))\<rparr>) p3
                         in Inr (p4\<lparr>elements := (elements p4)(internalPropertyName \<mapsto> Some propertyElement)\<rparr>))))
               else
                 (let internalInstanceName = internalName (heap p1 cp) @ INSTANCE_DELIMITER @ name in
                  if (case instanceMembers (heap p1 cp) of Some ms \<Rightarrow> has ms name | None \<Rightarrow> False)
                  then Inr (error Duplicate_identifier_0 [d_internalName decl] p1)
                  else
                    (case new_FunctionPrototype name internalInstanceName (Some decl) (Some cp) of
                       Inl e \<Rightarrow> Inl e
                     | Inr f \<Rightarrow>
                        (let (instancePrototype, p2) = alloc f p1;
                             p3 = update propertyElement
                                    (\<lambda>c. if isGetter then c\<lparr>getterPrototype := Some instancePrototype\<rparr>
                                         else c\<lparr>setterPrototype := Some instancePrototype\<rparr>) p2;
                             ms = (case instanceMembers (heap p3 cp) of Some ms \<Rightarrow> ms | None \<Rightarrow> Map.empty)
                         in Inr (update cp (\<lambda>c. c\<lparr>instanceMembers := Some (ms(name \<mapsto> propertyElement))\<rparr>) p3))))))"

definition initializeMethod :: "FunctionDecl \<Rightarrow> ref \<Rightarrow> Program \<Rightarrow> exception + Program" where
  "initializeMethod decl cp p =
     (if hasModifier GET (d_modifiers decl) \<or> hasModifier SET (d_modifiers decl)
      then initializeAccessor decl cp (hasModifier GET (d_modifiers decl)) p
      else
       (let name = d_name decl; inm = d_internalName decl in
        if hasModifier STATIC (d_modifiers decl) then
          (if has (elements p) inm then Inr (error Duplicate_identifier_0 [inm] p)
           else if (case members (heap p cp) of Some ms \<Rightarrow> has ms name | None \<Rightarrow> False)
           then Inr (error Duplicate_identifier_0 [inm] p)
           else
             (case new_FunctionPrototype name inm (Some decl) None of
                Inl e \<Rightarrow> Inl e
              | Inr f \<Rightarrow>
                 (let (staticPrototype, p1) = alloc f p;
                      ms = (case members (heap p1 cp) of Some ms \<Rightarrow> ms | None \<Rightarrow> Map.empty);
                      p2 = update cp (\<lambda>c. c\<lparr>members := Some (ms(name \<mapsto> staticPrototype))\<rparr>) p1
                  in Inr (p2\<lparr>elements := (elements p2)(inm \<mapsto> Some staticPrototype)\<rparr>))))
        else
          (if (case instanceMembers (heap p cp) of Some ms \<Rightarrow> has ms name | None \<Rightarrow> False)
           then Inr (error Duplicate_identifier_0 [inm] p)
           else
             (case new_FunctionPrototype name inm (Some decl) (Some cp) of
                Inl e \<Rightarrow> Inl e
              | Inr f \<Rightarrow>
                 (let (instancePrototype, p1) = alloc f p;
                      ms = (case instanceMembers (heap p1 cp) of Some ms \<Rightarrow> ms | None \<Rightarrow> Map.empty)
                  in Inr (update cp (\<lambda>c. c\<lparr>instanceMembers := Some (ms(name \<mapsto> instancePrototype))\<rparr>) p1))))))"

text \<open>The member loop of a class; \<open>what\<close> is the message of the exception an unexpected
  member kind throws (\<^verbatim>\<open>class member expected\<close>, \<^verbatim>\<open>interface member expected\<close>).\<close>

fun initializeClassMembers :: "string \<Rightarrow> Statement list \<Rightarrow> ref \<Rightarrow> Program \<Rightarrow> exception + Program" where
  "initializeClassMembers what [] cp p = Inr p"
| "initializeClassMembers what (m # ms) cp p =
     (case (case m of
              FieldDeclaration d \<Rightarrow> initializeField d cp p
            | MethodDeclaration d \<Rightarrow> initializeMethod d cp p
            | _ \<Rightarrow> Inl (Error what)) of
        Inl e \<Rightarrow> Inl e
      | Inr p1 \<Rightarrow> initializeClassMembers what ms cp p1)"

subsection \<open>Declarations\<close>

definition initializeClass ::
    "Decl \<Rightarrow> string list \<Rightarrow> Statement list \<Rightarrow> ref option \<Rightarrow> Program \<Rightarrow> exception + Program" where
  "initializeClass decl tps memberDeclarations ns p =
     (let inm = d_internalName decl in
      if has (elements p) inm then Inr (error Duplicate_identifier_0 [inm] p)
      else
       (case new_ClassPrototype (d_name decl) inm (Some (decl, tps)) of
          Inl e \<Rightarrow> Inl e
        | Inr c \<Rightarrow>
           (let (proto, p1) = alloc (c\<lparr>namespace := ns\<rparr>) p;
                p2 = p1\<lparr>elements := (elements p1)(inm \<mapsto> Some proto)\<rparr>;
                p3 = addGlobalAlias (d_decorators decl) (d_name decl) inm proto p2;
                (go, p4) = (case ns of
                              Some n \<Rightarrow> addMember n (d_name decl) proto inm p3
                            | None \<Rightarrow> if isExported (heap p3 proto) then addFileExport inm proto p3
                                      else (True, p3))
            in if go then initializeClassMembers ''class member expected'' memberDeclarations proto p4
               else Inr p4)))"

definition initializeEnumValue :: "EnumValueDeclaration \<Rightarrow> ref \<Rightarrow> Program \<Rightarrow> Program" where
  "initializeEnumValue decl enm p =
     (if (case members (heap p enm) of Some ms \<Rightarrow> has ms (ev_name decl) | None \<Rightarrow> False)
      then error Duplicate_identifier_0 [ev_internalName decl] p
      else
       (let (v, p1) = alloc (new_EnumValue enm (ev_name decl) (ev_internalName decl)) p;
            ms = (case members (heap p1 enm) of Some ms \<Rightarrow> ms | None \<Rightarrow> Map.empty)
        in update enm (\<lambda>c. c\<lparr>members := Some (ms(ev_name decl \<mapsto> v))\<rparr>) p1))"

definition initializeEnum ::
    "Decl \<Rightarrow> EnumValueDeclaration list \<Rightarrow> ref option \<Rightarrow> Program \<Rightarrow> exception + Program" where
  "initializeEnum decl vals ns p =
     (let inm = d_internalName decl in
      if has (elements p) inm then Inr (error Duplicate_identifier_0 [inm] p)
      else
       (case new_Enum (d_name decl) inm (Some decl) of
          Inl e \<Rightarrow> Inl e
        | Inr c \<Rightarrow>
           (let (enm, p1) = alloc (c\<lparr>namespace := ns\<rparr>) p;
                p2 = p1\<lparr>elements := (elements p1)(inm \<mapsto> Some enm)\<rparr>;
                (go, p3) = (case ns of
                              Some n \<Rightarrow> addMember n (d_name decl) enm inm p2
                            | None \<Rightarrow> if isExported (heap p2 enm) then addFileExport inm enm p2
                                      else (True, p2))
            in if go then Inr (fold (\<lambda>v q. initializeEnumValue v enm q) vals p3) else Inr p3)))"

definition initializeFunction :: "FunctionDecl \<Rightarrow> ref option \<Rightarrow> Program \<Rightarrow> exception + Program" where
  "initializeFunction decl ns p =
     (let inm = d_internalName decl in
      if has (elements p) inm then Inr (error Duplicate_identifier_0 [inm] p)
      else
       (case new_FunctionPrototype (d_name decl) inm (Some decl) None of
          Inl e \<Rightarrow> Inl e
        | Inr c \<Rightarrow>
           (let (proto, p1) = alloc (c\<lparr>namespace := ns\<rparr>) p;
                p2 = p1\<lparr>elements := (elements p1)(inm \<mapsto> Some proto)\<rparr>;
                p3 = addGlobalAlias (d_decorators decl) (d_name decl) inm proto p2;
                (go, p4) = (case ns of
                              Some n \<Rightarrow> addMember n (d_name decl) proto inm p3
                            | None \<Rightarrow> if isExported (heap p3 proto) then addFileExport inm proto p3
                                      else (True, p3))
            in Inr p4)))"

text \<open>The interface handler has no \<^verbatim>\<open>@global\<close> step, and the key it gives the namespace's
  member map is \<^verbatim>\<open>prototype.internalName\<close>.\<close>

definition initializeInterface ::
    "Decl \<Rightarrow> string list \<Rightarrow> Statement list \<Rightarrow> ref option \<Rightarrow> Program \<Rightarrow> exception + Program" where
  "initializeInterface decl tps memberDeclarations ns p =
     (let inm = d_internalName decl in
      if has (elements p) inm then Inr (error Duplicate_identifier_0 [inm] p)
      else
       (case new_InterfacePrototype (d_name decl) inm (Some (decl, tps)) of
          Inl e \<Rightarrow> Inl e
        | Inr c \<Rightarrow>
           (let (proto, p1) = alloc (c\<lparr>namespace := ns\<rparr>) p;
                p2 = p1\<lparr>elements := (elements p1)(inm \<mapsto> Some proto)\<rparr>;
                (go, p3) = (case ns of
                              Some n \<Rightarrow> addMember n (internalName (heap p2 proto)) proto inm p2
                            | None \<Rightarrow> if isExported (heap p2 proto) then addFileExport inm proto p2
                                      else (True, p2))
            in if go then initializeClassMembers ''interface member expected'' memberDeclarations proto p3
               else Inr p3)))"

text \<open>Type aliases are program globals: the name is looked up in \<^verbatim>\<open>types\<close> and
  \<^verbatim>\<open>typeAliases\<close>, and the namespace is not used.\<close>

definition initializeType :: "string \<Rightarrow> TypeNode \<Rightarrow> ref option \<Rightarrow> Program \<Rightarrow> Program" where
  "initializeType name aliased ns p =
     (if has (types p) name \<or> has (typeAliases p) name
      then error Duplicate_identifier_0 [name] p
      else p\<lparr>typeAliases := (typeAliases p)(name \<mapsto> aliased)\<rparr>)"

text \<open>One round of the loop of \<^verbatim>\<open>initializeVariables\<close>; an exported global whose name is
  taken in \<^verbatim>\<open>exports\<close> is reported as \<^verbatim>\<open>Duplicate_identifier_0\<close>.\<close>

definition initializeVariable :: "Decl \<Rightarrow> ref option \<Rightarrow> Program \<Rightarrow> exception + Program" where
  "initializeVariable decl ns p =
     (let inm = d_internalName decl in
      if has (elements p) inm then Inr (error Duplicate_identifier_0 [inm] p)
      else
       (case new_Global (d_name decl) inm (Some decl) None of
          Inl e \<Rightarrow> Inl e
        | Inr c \<Rightarrow>
           (let (global, p1) = alloc (c\<lparr>namespace := ns\<rparr>) p;
                p2 = p1\<lparr>elements := (elements p1)(inm \<mapsto> Some global)\<rparr>;
                p3 = addGlobalAlias (d_decorators decl) (d_name decl) inm global p2
            in case ns of
                 Some n \<Rightarrow> Inr (snd (addMember n (d_name decl) global inm p3))
               | None \<Rightarrow>
                   if isExported (heap p3 global) then
                     (if has (exports p3) inm then Inr (error Duplicate_identifier_0 [inm] p3)
                      else Inr (p3\<lparr>exports := (exports p3)(inm \<mapsto> Some global)\<rparr>))
                   else Inr p3)))"

fun initializeVariables :: "Decl list \<Rightarrow> ref option \<Rightarrow> Program \<Rightarrow> exception + Program" where
  "initializeVariables [] ns p = Inr p"
| "initializeVariables (d # ds) ns p =
     (case initializeVariable d ns p of
        Inl e \<Rightarrow> Inl e
      | Inr p1 \<Rightarrow> initializeVariables ds ns p1)"

text \<open>
  \<^verbatim>\<open>initializeNamespace\<close> and its member loop. The element found under the internal name
  is taken as the namespace whatever it is; a new one is made only when there is none.
\<close>

fun initializeNamespace ::
    "Decl \<Rightarrow> Statement list \<Rightarrow> ref option \<Rightarrow> Program \<Rightarrow> exception + Program"
  and initializeNamespaceMembers :: "Statement list \<Rightarrow> ref \<Rightarrow> Program \<Rightarrow> exception + Program"
where
  "initializeNamespace decl mems parentNamespace p =
     (let inm = d_internalName decl in
      case (case get (elements p) inm of
              Some n \<Rightarrow> Inr (n, p)
            | None \<Rightarrow>
               (case new_Namespace (d_name decl) inm (Some decl) of
                  Inl e \<Rightarrow> Inl e
                | Inr c \<Rightarrow>
                   (let (n, p1) = alloc (c\<lparr>namespace := parentNamespace\<rparr>) p
                    in Inr (n, p1\<lparr>elements := (elements p1)(inm \<mapsto> Some n)\<rparr>)))) of
        Inl e \<Rightarrow> Inl e
      | Inr (n, p2) \<Rightarrow>
         (let (go, p3) = (case parentNamespace of
                            Some pn \<Rightarrow> addMember pn (d_name decl) n inm p2
                          | None \<Rightarrow> if isExported (heap p2 n) then addFileExport inm n p2
                                    else (True, p2))
          in if go then initializeNamespaceMembers mems n p3 else Inr p3))"
| "initializeNamespaceMembers [] n p = Inr p"
| "initializeNamespaceMembers (m # ms) n p =
     (case (case m of
              ClassDeclaration d tps cms \<Rightarrow> initializeClass d tps cms (Some n) p
            | EnumDeclaration d vals \<Rightarrow> initializeEnum d vals (Some n) p
            | FunctionDeclaration d \<Rightarrow> initializeFunction d (Some n) p
            | InterfaceDeclaration d tps cms \<Rightarrow> initializeInterface d tps cms (Some n) p
            | NamespaceDeclaration d nms \<Rightarrow> initializeNamespace d nms (Some n) p
            | TypeDeclaration name aliased \<Rightarrow> Inr (initializeType name aliased (Some n) p)
            | VariableStatement ds \<Rightarrow> initializeVariables ds (Some n) p
            | _ \<Rightarrow> Inl (Error ''unexpected namespace member'')) of
        Inl e \<Rightarrow> Inl e
      | Inr p1 \<Rightarrow> initializeNamespaceMembers ms n p1)"

subsection \<open>Exports and imports: the forward-reference queues\<close>

record QueuedExport =
  isReExport :: bool
  qe_referencedName :: string
  qe_member :: ExportMember

record QueuedImport =
  qi_internalName :: string
  qi_referencedName :: string
  qi_declaration :: ImportDeclaration

text \<open>
  \<^verbatim>\<open>queuedExports\<close> is a \<^verbatim>\<open>Map\<close> that the post-pass iterates in insertion order, and
  the binder calls \<^verbatim>\<open>set\<close> only for a key it has found absent: an association list,
  extended at its end.
\<close>

type_synonym QueuedExports = "(string \<times> QueuedExport) list"

text \<open>
  The walk over the queued exports already known, as \<^verbatim>\<open>initializeExport\<close> and
  \<^verbatim>\<open>initializeImport\<close> both have it, word for word. It ends in one of three ways: at a
  re-export whose target is a key of \<^verbatim>\<open>exports\<close>, at a local export whose target is a
  key of \<^verbatim>\<open>elements\<close>, or without a result. Each outcome carries the value the variable
  \<^verbatim>\<open>referencedName\<close> has at that moment, which is what the caller reads next.

  \<^verbatim>\<open>seen\<close> is a set of \<^verbatim>\<open>QueuedExport\<close> objects. Every queued export is made for an
  external name that is not queued yet and holds its member, which fixes that name, so
  two objects of one queue never have equal fields and the set of records is the set of
  objects.
\<close>

datatype Walk = AtExport string | AtElement string | Unresolved string

function walkQueuedExports ::
    "Program \<Rightarrow> QueuedExports \<Rightarrow> string \<Rightarrow> QueuedExport set \<Rightarrow> Walk" where
  "walkQueuedExports p qes referencedName seen =
     (case map_of qes referencedName of
        None \<Rightarrow> Unresolved referencedName
      | Some queuedExport \<Rightarrow>
          if isReExport queuedExport then
            (if has (exports p) (qe_referencedName queuedExport) then AtExport referencedName
             else if queuedExport \<in> seen then Unresolved (qe_referencedName queuedExport)
             else walkQueuedExports p qes (qe_referencedName queuedExport)
                    (insert queuedExport seen))
          else
            (if has (elements p) (qe_referencedName queuedExport) then AtElement referencedName
             else Unresolved referencedName))"
  by pat_completeness auto
termination
proof (relation "measure (\<lambda>(p, qes, referencedName, seen). card (snd ` set qes - seen))")
  show "wf (measure (\<lambda>(p, qes, referencedName, seen). card (snd ` set qes - seen)))"
    by simp
next
  fix p :: Program and qes :: QueuedExports and referencedName :: string
    and seen :: "QueuedExport set" and queuedExport :: QueuedExport
  assume found: "map_of qes referencedName = Some queuedExport"
    and fresh: "queuedExport \<notin> seen"
  from found have "(referencedName, queuedExport) \<in> set qes" by (rule map_of_SomeD)
  then have "queuedExport \<in> snd ` set qes" by force
  with fresh have "snd ` set qes - insert queuedExport seen \<subset> snd ` set qes - seen" by blast
  then have "card (snd ` set qes - insert queuedExport seen) < card (snd ` set qes - seen)"
    by (intro psubset_card_mono) simp_all
  then show "((p, qes, qe_referencedName queuedExport, insert queuedExport seen),
              (p, qes, referencedName, seen))
            \<in> measure (\<lambda>(p, qes, referencedName, seen). card (snd ` set qes - seen))"
    by simp
qed

declare walkQueuedExports.simps [simp del]

definition initializeExport ::
    "ExportMember \<Rightarrow> string option \<Rightarrow> Program \<times> QueuedExports \<Rightarrow> Program \<times> QueuedExports" where
  "initializeExport member internalPath st =
     (let p = fst st; qes = snd st;
          externalName = em_source member @ PATH_DELIMITER @ em_externalIdentifier member
      in if has (exports p) externalName
         then (error Export_declaration_conflicts_with_exported_declaration_of_0 [externalName] p, qes)
         else
          (case internalPath of
             None \<Rightarrow>
              (let referencedName = em_source member @ PATH_DELIMITER @ em_identifier member in
               if has (elements p) referencedName
               then (p\<lparr>exports := (exports p)(externalName \<mapsto> get (elements p) referencedName)\<rparr>, qes)
               else if has (map_of qes) externalName
               then (error Export_declaration_conflicts_with_exported_declaration_of_0
                       [externalName] p, qes)
               else (p, qes @ [(externalName,
                        \<lparr>isReExport = False, qe_referencedName = referencedName,
                         qe_member = member\<rparr>)]))
           | Some path \<Rightarrow>
              (let referencedName = path @ PATH_DELIMITER @ em_identifier member in
               if has (exports p) referencedName
               then (p\<lparr>exports := (exports p)(externalName \<mapsto> get (exports p) referencedName)\<rparr>, qes)
               else
                (case walkQueuedExports p qes referencedName {} of
                   AtExport rn \<Rightarrow>
                     (p\<lparr>exports := (exports p)(externalName \<mapsto> get (exports p) rn)\<rparr>, qes)
                 | AtElement rn \<Rightarrow>
                     (p\<lparr>exports := (exports p)(externalName \<mapsto> get (elements p) rn)\<rparr>, qes)
                 | Unresolved rn \<Rightarrow>
                     if has (map_of qes) externalName
                     then (error Export_declaration_conflicts_with_exported_declaration_of_0
                             [externalName] p, qes)
                     else (p, qes @ [(externalName,
                              \<lparr>isReExport = True, qe_referencedName = rn,
                               qe_member = member\<rparr>)])))))"

definition initializeExports ::
    "ExportMember list \<Rightarrow> string option \<Rightarrow> Program \<times> QueuedExports \<Rightarrow> Program \<times> QueuedExports" where
  "initializeExports mems internalPath st =
     fold (\<lambda>member st1. initializeExport member internalPath st1) mems st"

definition initializeImport ::
    "ImportDeclaration \<Rightarrow> string \<Rightarrow> QueuedExports \<Rightarrow> Program \<times> QueuedImport list
      \<Rightarrow> Program \<times> QueuedImport list" where
  "initializeImport decl internalPath qes st =
     (let p = fst st; qis = snd st; inm = id_internalName decl in
      if has (elements p) inm then (error Duplicate_identifier_0 [inm] p, qis)
      else
       (let referencedName = internalPath @ PATH_DELIMITER @ id_externalIdentifier decl in
        if has (exports p) referencedName
        then (p\<lparr>elements := (elements p)(inm \<mapsto> get (exports p) referencedName)\<rparr>, qis)
        else
         (case walkQueuedExports p qes referencedName {} of
            AtExport rn \<Rightarrow> (p\<lparr>elements := (elements p)(inm \<mapsto> get (exports p) rn)\<rparr>, qis)
          | AtElement rn \<Rightarrow> (p\<lparr>elements := (elements p)(inm \<mapsto> get (elements p) rn)\<rparr>, qis)
          | Unresolved rn \<Rightarrow>
              (p, qis @ [\<lparr>qi_internalName = inm, qi_referencedName = rn,
                         qi_declaration = decl\<rparr>]))))"

text \<open>\<^verbatim>\<open>initializeImports\<close>, given the statement's \<^verbatim>\<open>declarations\<close>,
  \<^verbatim>\<open>namespaceName\<close>, \<^verbatim>\<open>internalPath\<close> and \<^verbatim>\<open>range.source.internalPath\<close>.\<close>

definition initializeImports ::
    "ImportDeclaration list option \<Rightarrow> string option \<Rightarrow> string \<Rightarrow> string \<Rightarrow> QueuedExports
      \<Rightarrow> Program \<times> QueuedImport list \<Rightarrow> exception + Program \<times> QueuedImport list" where
  "initializeImports declarations namespaceName internalPath source qes st =
     (case declarations of
        Some ds \<Rightarrow> Inr (fold (\<lambda>d st1. initializeImport d internalPath qes st1) ds st)
      | None \<Rightarrow>
         (case namespaceName of
            Some nsName \<Rightarrow>
              (let inm = source @ ''/'' @ nsName in
               if has (elements (fst st)) inm
               then Inr (error Duplicate_identifier_0 [inm] (fst st), snd st)
               else Inr (error Operation_not_supported [] (fst st), snd st))
          | None \<Rightarrow> Inl AssertionError))"

subsection \<open>The pass over the sources and the two post-passes\<close>

text \<open>The state of \<^verbatim>\<open>initialize\<close>: the program and its two local queues.\<close>

type_synonym BinderState = "Program \<times> QueuedExports \<times> QueuedImport list"

text \<open>The \<^verbatim>\<open>switch\<close> over a top-level statement; it has no default case.\<close>

definition initializeStatement :: "Statement \<Rightarrow> BinderState \<Rightarrow> exception + BinderState" where
  "initializeStatement statement st =
     (let p = fst st; qes = fst (snd st); qis = snd (snd st);
          with_queues = (\<lambda>r. case r of Inl e \<Rightarrow> Inl e | Inr p1 \<Rightarrow> Inr (p1, qes, qis))
      in case statement of
           ClassDeclaration d tps cms \<Rightarrow> with_queues (initializeClass d tps cms None p)
         | EnumDeclaration d vals \<Rightarrow> with_queues (initializeEnum d vals None p)
         | ExportStatement mems internalPath \<Rightarrow>
             (let (p1, qes1) = initializeExports mems internalPath (p, qes) in Inr (p1, qes1, qis))
         | FunctionDeclaration d \<Rightarrow> with_queues (initializeFunction d None p)
         | ImportStatement declarations namespaceName internalPath source \<Rightarrow>
             (case initializeImports declarations namespaceName internalPath source qes (p, qis) of
                Inl e \<Rightarrow> Inl e
              | Inr (p1, qis1) \<Rightarrow> Inr (p1, qes, qis1))
         | InterfaceDeclaration d tps cms \<Rightarrow> with_queues (initializeInterface d tps cms None p)
         | NamespaceDeclaration d nms \<Rightarrow> with_queues (initializeNamespace d nms None p)
         | TypeDeclaration name aliased \<Rightarrow> Inr (initializeType name aliased None p, qes, qis)
         | VariableStatement ds \<Rightarrow> with_queues (initializeVariables ds None p)
         | _ \<Rightarrow> Inr st)"

fun initializeStatements :: "Statement list \<Rightarrow> BinderState \<Rightarrow> exception + BinderState" where
  "initializeStatements [] st = Inr st"
| "initializeStatements (statement # statements) st =
     (case initializeStatement statement st of
        Inl e \<Rightarrow> Inl e
      | Inr st1 \<Rightarrow> initializeStatements statements st1)"

fun initializeSources :: "Statement list list \<Rightarrow> BinderState \<Rightarrow> exception + BinderState" where
  "initializeSources [] st = Inr st"
| "initializeSources (source # srcs) st =
     (case initializeStatements source st of
        Inl e \<Rightarrow> Inl e
      | Inr st1 \<Rightarrow> initializeSources srcs st1)"

text \<open>
  \<^verbatim>\<open>tryResolveImport\<close> loops with no bound and no record of what it has visited; a run
  that does not return is the value \<open>None\<close>. A returned value is the element found
  or null.
\<close>

partial_function (option) tryResolveImport ::
    "Program \<Rightarrow> QueuedExports \<Rightarrow> string \<Rightarrow> ref option option" where
  "tryResolveImport p qes referencedName =
     (case get (exports p) referencedName of
        Some element \<Rightarrow> Some (Some element)
      | None \<Rightarrow>
         (case map_of qes referencedName of
            None \<Rightarrow> Some None
          | Some queuedExport \<Rightarrow>
              if isReExport queuedExport
              then tryResolveImport p qes (qe_referencedName queuedExport)
              else Some (get (elements p) (qe_referencedName queuedExport))))"

text \<open>The loop over the queued imports: an import that resolves is bound and removed, one
  that does not is reported and stays.\<close>

fun resolveQueuedImports :: "QueuedImport list \<Rightarrow> QueuedExports \<Rightarrow> Program \<Rightarrow> Program option" where
  "resolveQueuedImports [] qes p = Some p"
| "resolveQueuedImports (queuedImport # qis) qes p =
     (case tryResolveImport p qes (qi_referencedName queuedImport) of
        None \<Rightarrow> None
      | Some (Some element) \<Rightarrow>
          resolveQueuedImports qis qes
            (p\<lparr>elements := (elements p)(qi_internalName queuedImport \<mapsto> Some element)\<rparr>)
      | Some None \<Rightarrow>
          resolveQueuedImports qis qes
            (error Module_0_has_no_exported_member_1
               [id_path (qi_declaration queuedImport),
                id_externalIdentifier (qi_declaration queuedImport)] p))"

text \<open>The \<^verbatim>\<open>do ... while (currentExport)\<close> loop for one queued export; it too has no
  bound, and \<open>None\<close> is a run that does not return.\<close>

partial_function (option) resolveQueuedExport ::
    "string \<Rightarrow> QueuedExport \<Rightarrow> QueuedExports \<Rightarrow> QueuedExport \<Rightarrow> Program \<Rightarrow> Program option" where
  "resolveQueuedExport exportName queuedExport qes currentExport p =
     (if isReExport currentExport then
        (case get (exports p) (qe_referencedName currentExport) of
           Some element \<Rightarrow> Some (p\<lparr>exports := (exports p)(exportName \<mapsto> Some element)\<rparr>)
         | None \<Rightarrow>
            (case map_of qes (qe_referencedName currentExport) of
               None \<Rightarrow>
                 Some (error Module_0_has_no_exported_member_1
                         [em_path (qe_member queuedExport),
                          em_externalIdentifier (qe_member queuedExport)] p)
             | Some next \<Rightarrow> resolveQueuedExport exportName queuedExport qes next p))
      else
        (case get (elements p) (qe_referencedName currentExport) of
           Some element \<Rightarrow> Some (p\<lparr>exports := (exports p)(exportName \<mapsto> Some element)\<rparr>)
         | None \<Rightarrow>
             Some (error Cannot_find_name_0 [em_identifier (qe_member queuedExport)] p)))"

text \<open>The loop over the entries of \<^verbatim>\<open>queuedExports\<close>, in insertion order; \<open>todo\<close> is
  what is left of the iteration and \<open>qes\<close> the whole map.\<close>

fun resolveQueuedExports :: "QueuedExports \<Rightarrow> QueuedExports \<Rightarrow> Program \<Rightarrow> Program option" where
  "resolveQueuedExports [] qes p = Some p"
| "resolveQueuedExports ((exportName, queuedExport) # todo) qes p =
     (case resolveQueuedExport exportName queuedExport qes queuedExport p of
        None \<Rightarrow> None
      | Some p1 \<Rightarrow> resolveQueuedExports todo qes p1)"

text \<open>The primitive table \<^verbatim>\<open>initialize\<close> installs.\<close>

definition initialTypes :: "Target \<Rightarrow> (string \<rightharpoonup> Type)" where
  "initialTypes t = map_of
     [(''i8'', Type_i8), (''i16'', Type_i16), (''i32'', Type_i32), (''i64'', Type_i64),
      (''isize'', if t = WASM64 then Type_isize64 else Type_isize32),
      (''u8'', Type_u8), (''u16'', Type_u16), (''u32'', Type_u32), (''u64'', Type_u64),
      (''usize'', if t = WASM64 then Type_usize64 else Type_usize32),
      (''bool'', Type_bool), (''f32'', Type_f32), (''f64'', Type_f64), (''void'', Type_void),
      (''number'', Type_f64), (''boolean'', Type_bool)]"

text \<open>
  \<^verbatim>\<open>Program.initialize\<close>. \<^verbatim>\<open>initializeBuiltins\<close> of \<^verbatim>\<open>./builtins\<close> is a parameter.
  The result is \<open>None\<close> when a post-pass does not return, the exception when the binder
  throws, the program otherwise.
\<close>

definition initialize ::
    "(Program \<Rightarrow> Program) \<Rightarrow> Target \<Rightarrow> Program \<Rightarrow> (exception + Program) option" where
  "initialize initializeBuiltins t p =
     (let p0 = initializeBuiltins (p\<lparr>target := t, types := initialTypes t\<rparr>) in
      case initializeSources (sources p0) (p0, [], []) of
        Inl e \<Rightarrow> Some (Inl e)
      | Inr (p1, queuedExports, queuedImports) \<Rightarrow>
         (case resolveQueuedImports queuedImports queuedExports p1 of
            None \<Rightarrow> None
          | Some p2 \<Rightarrow>
             (case resolveQueuedExports queuedExports queuedExports p2 of
                None \<Rightarrow> None
              | Some p3 \<Rightarrow> Some (Inr p3))))"

section \<open>The type resolver\<close>

text \<open>
  Modelled from the spec: the prefix and the postfix \<^verbatim>\<open>typesToString\<close> of \<^verbatim>\<open>./types\<close>
  takes when it is called with the types alone, as \<^verbatim>\<open>resolveType\<close> calls it; the spec
  has that call give the bracketed form \<^verbatim>\<open><T1,T2,...>\<close>.
\<close>

definition defaultPrefix :: string where "defaultPrefix = ''<''"
definition defaultPostfix :: string where "defaultPostfix = ''>''"

text \<open>The report at the end of \<^verbatim>\<open>resolveType\<close>, made when \<^verbatim>\<open>reportNotFound\<close> is set.\<close>

definition notFound :: "bool \<Rightarrow> string \<Rightarrow> Program \<Rightarrow> Program" where
  "notFound reportNotFound globalName p =
     (if reportNotFound then error Cannot_find_name_0 [globalName] p else p)"

text \<open>
  \<^verbatim>\<open>resolveType\<close> recurses into the type arguments and, through an alias, into a node
  that is not part of its argument, so it can recurse forever (\<^verbatim>\<open>type A = A\<close>). The
  model bounds the depth of the recursion by a fuel; \<open>None\<close> is "out of fuel".
  \<^verbatim>\<open>typesToString\<close> of \<^verbatim>\<open>./types\<close> is a parameter \<open>tts\<close>, applied to the types, the
  prefix and the postfix.
\<close>

fun resolveType ::
    "(Type list \<Rightarrow> string \<Rightarrow> string \<Rightarrow> string) \<Rightarrow> nat \<Rightarrow> TypeNode \<Rightarrow> (string \<rightharpoonup> Type) option
      \<Rightarrow> bool \<Rightarrow> Program \<Rightarrow> (Type option \<times> Program) option"
  and resolveTypes ::
    "(Type list \<Rightarrow> string \<Rightarrow> string \<Rightarrow> string) \<Rightarrow> nat \<Rightarrow> TypeNode list \<Rightarrow> (string \<rightharpoonup> Type) option
      \<Rightarrow> bool \<Rightarrow> Program \<Rightarrow> (Type list option \<times> Program) option"
where
  "resolveType tts 0 node ctxTypeArguments reportNotFound p = None"
| "resolveType tts (Suc n) node ctxTypeArguments reportNotFound p =
     (case resolveTypes tts n (tn_typeArguments node) ctxTypeArguments reportNotFound p of
        None \<Rightarrow> None
      | Some (None, p1) \<Rightarrow> Some (None, p1)
      | Some (Some paramTypes, p1) \<Rightarrow>
          (let k = length (tn_typeArguments node);
               globalName = (if k \<noteq> 0 then tn_identifier node @ tts paramTypes defaultPrefix defaultPostfix
                             else tn_identifier node);
               placeholderType =
                 (if k \<noteq> 0 then None
                  else case ctxTypeArguments of
                         None \<Rightarrow> None
                       | Some c \<Rightarrow> c globalName)
           in case placeholderType of
                Some t \<Rightarrow> Some (Some t, p1)
              | None \<Rightarrow>
                 (case types p1 (tn_source node @ PATH_DELIMITER @ globalName) of
                    Some t \<Rightarrow> Some (Some t, p1)
                  | None \<Rightarrow>
                     (case types p1 globalName of
                        Some t \<Rightarrow> Some (Some t, p1)
                      | None \<Rightarrow>
                         (case typeAliases p1 globalName of
                            None \<Rightarrow>
                              Some (None, notFound reportNotFound globalName p1)
                          | Some alias \<Rightarrow>
                             (case resolveType tts n alias None reportNotFound p1 of
                                None \<Rightarrow> None
                              | Some (Some t, p2) \<Rightarrow> Some (Some t, p2)
                              | Some (None, p2) \<Rightarrow>
                                  Some (None, notFound reportNotFound globalName p2)))))))"
| "resolveTypes tts n [] ctxTypeArguments reportNotFound p = Some (Some [], p)"
| "resolveTypes tts n (node # nodes) ctxTypeArguments reportNotFound p =
     (case resolveType tts n node ctxTypeArguments reportNotFound p of
        None \<Rightarrow> None
      | Some (None, p1) \<Rightarrow> Some (None, p1)
      | Some (Some t, p1) \<Rightarrow>
         (case resolveTypes tts n nodes ctxTypeArguments reportNotFound p1 of
            None \<Rightarrow> None
          | Some (None, p2) \<Rightarrow> Some (None, p2)
          | Some (Some ts, p2) \<Rightarrow> Some (Some (t # ts), p2)))"

text \<open>
  \<^verbatim>\<open>resolveTypeArguments\<close>. The type parameters are read for their number only. The
  loop over the arguments is the loop \<open>resolveTypes\<close> with reporting on: it stops at
  the first argument that does not resolve.
\<close>

definition resolveTypeArguments ::
    "(Type list \<Rightarrow> string \<Rightarrow> string \<Rightarrow> string) \<Rightarrow> nat \<Rightarrow> string list \<Rightarrow> TypeNode list option
      \<Rightarrow> (string \<rightharpoonup> Type) option \<Rightarrow> bool \<Rightarrow> Program \<Rightarrow> (Type list option \<times> Program) option"
where
  "resolveTypeArguments tts n typeParameters typeArgumentNodes ctxTypeArguments
       alternativeReportNode p =
     (let parameterCount = length typeParameters;
          argumentCount = (case typeArgumentNodes of None \<Rightarrow> 0 | Some nodes \<Rightarrow> length nodes)
      in if parameterCount \<noteq> argumentCount then
           (if argumentCount \<noteq> 0 then
              Some (None, error Expected_0_type_arguments_but_got_1
                            [toString10 parameterCount, toString10 argumentCount] p)
            else if alternativeReportNode then
              Some (None, error Expected_0_type_arguments_but_got_1
                            [toString10 parameterCount, ''0''] p)
            else Some (None, p))
         else resolveTypes tts n (case typeArgumentNodes of None \<Rightarrow> [] | Some nodes \<Rightarrow> nodes)
                ctxTypeArguments True p)"

section \<open>The expression resolver\<close>

text \<open>
  The \<^verbatim>\<open>do ... while (namespace = namespace.namespace)\<close> loop of
  \<^verbatim>\<open>resolveIdentifier\<close> follows the \<^verbatim>\<open>namespace\<close> links of the store; \<open>None\<close> is a
  walk that does not return, \<open>Some None\<close> a walk that finds nothing.
\<close>

partial_function (option) searchNamespaces :: "Program \<Rightarrow> string \<Rightarrow> ref \<Rightarrow> ref option option" where
  "searchNamespaces p name ns =
     (case get (elements p) (internalName (heap p ns) @ STATIC_DELIMITER @ name) of
        Some element \<Rightarrow> Some (Some element)
      | None \<Rightarrow>
         (case namespace (heap p ns) of
            None \<Rightarrow> Some None
          | Some outer \<Rightarrow> searchNamespaces p name outer))"

text \<open>\<^verbatim>\<open>resolveIdentifier\<close>, given \<^verbatim>\<open>identifier.name\<close>,
  \<^verbatim>\<open>identifier.range.source.internalPath\<close> and the contextual function.\<close>

definition resolveIdentifier ::
    "string \<Rightarrow> string \<Rightarrow> ref \<Rightarrow> Program \<Rightarrow> (ref option \<times> Program) option" where
  "resolveIdentifier name source contextualFunction p =
     (case locals (heap p contextualFunction) name of
        Some local \<Rightarrow> Some (Some local, p)
      | None \<Rightarrow>
         (case (case namespace (heap p (prototype (heap p contextualFunction))) of
                  None \<Rightarrow> Some None
                | Some ns \<Rightarrow> searchNamespaces p name ns) of
            None \<Rightarrow> None
          | Some (Some element) \<Rightarrow> Some (Some element, p)
          | Some None \<Rightarrow>
             (case get (elements p) (source @ PATH_DELIMITER @ name) of
                Some element \<Rightarrow> Some (Some element, p)
              | None \<Rightarrow>
                 (case get (elements p) name of
                    Some element \<Rightarrow> Some (Some element, p)
                  | None \<Rightarrow> Some (None, error Cannot_find_name_0 [name] p)))))"

section \<open>Monomorphization of function prototypes\<close>

text \<open>The loop of the \<^verbatim>\<open>Function\<close> constructor that makes a local for each parameter.\<close>

fun addParameterLocals :: "(string \<times> Type) list \<Rightarrow> nat \<Rightarrow> ref \<Rightarrow> Program \<Rightarrow> Program" where
  "addParameterLocals [] localIndex f p = p"
| "addParameterLocals ((name, ty) # ps) localIndex f p =
     (let (l, p1) = alloc (new_Local name localIndex (Some ty)) p
      in addParameterLocals ps (Suc localIndex) f
           (update f (\<lambda>c. c\<lparr>locals := (locals c)(name \<mapsto> l)\<rparr>) p1))"

text \<open>
  \<^verbatim>\<open>new Function(prototype, internalName, typeArguments, parameters, returnType,
  instanceMethodOf)\<close>. The two \<^verbatim>\<open>assert\<close>s tie \<^verbatim>\<open>instanceMethodOf\<close> to the prototype's
  \<^verbatim>\<open>INSTANCE\<close> flag. The break-context and temporary-local fields are not modelled.
\<close>

definition new_Function ::
    "ref \<Rightarrow> string \<Rightarrow> Type list option \<Rightarrow> (string \<times> Type) list \<Rightarrow> Type \<Rightarrow> ref option \<Rightarrow> Program
      \<Rightarrow> exception + ref \<times> Program" where
  "new_Function proto inm targs params rt methodOf p =
     (let (f, p1) = alloc ((new_Element FUNCTION (simpleName (heap p proto)) inm)
                      \<lparr>prototype := proto, typeArguments := targs, parameters := params,
                       returnType := Some rt, instanceMethodOf := methodOf,
                       flags := flags (heap p proto)\<rparr>) p
      in case methodOf of
           Some c \<Rightarrow>
             if \<not> isInstance (heap p1 f) then Inl AssertionError
             else
              (let (this, p2) = alloc (new_Local ''this'' 0 (resolved_type (heap p1 c))) p1;
                   p3 = update f (\<lambda>e. e\<lparr>locals := (locals e)(''this'' \<mapsto> this)\<rparr>) p2;
                   p4 = (case contextualTypeArguments (heap p3 c) of
                           None \<Rightarrow> p3
                         | Some inherited \<Rightarrow>
                             update f (\<lambda>e. e\<lparr>contextualTypeArguments :=
                               Some ((case contextualTypeArguments e of
                                        None \<Rightarrow> Map.empty | Some own \<Rightarrow> own) ++ inherited)\<rparr>) p3)
               in Inr (f, addParameterLocals params 1 f p4))
         | None \<Rightarrow>
             if isInstance (heap p1 f) then Inl AssertionError
             else Inr (f, addParameterLocals params 0 f p1))"

text \<open>The loop that binds each type parameter's name to its type argument; a type
  argument past the last type parameter reads \<^verbatim>\<open>identifier\<close> of \<^verbatim>\<open>undefined\<close>.\<close>

fun bindTypeParameters ::
    "string list \<Rightarrow> Type list \<Rightarrow> (string \<rightharpoonup> Type) \<Rightarrow> exception + (string \<rightharpoonup> Type)" where
  "bindTypeParameters tps [] c = Inr c"
| "bindTypeParameters [] (t # ts) c = Inl TypeError"
| "bindTypeParameters (tp # tps) (t # ts) c = bindTypeParameters tps ts (c(tp \<mapsto> t))"

text \<open>The loop over the declared parameters: an unannotated parameter, or one whose type
  does not resolve, ends the resolution with null.\<close>

fun resolveParameters ::
    "(Type list \<Rightarrow> string \<Rightarrow> string \<Rightarrow> string) \<Rightarrow> nat \<Rightarrow> (string \<times> TypeNode option) list
      \<Rightarrow> (string \<rightharpoonup> Type) option \<Rightarrow> Program \<Rightarrow> ((string \<times> Type) list option \<times> Program) option" where
  "resolveParameters tts n [] ctx p = Some (Some [], p)"
| "resolveParameters tts n ((name, None) # ps) ctx p = Some (None, p)"
| "resolveParameters tts n ((name, Some typeNode) # ps) ctx p =
     (case resolveType tts n typeNode ctx True p of
        None \<Rightarrow> None
      | Some (None, p1) \<Rightarrow> Some (None, p1)
      | Some (Some parameterType, p1) \<Rightarrow>
         (case resolveParameters tts n ps ctx p1 of
            None \<Rightarrow> None
          | Some (None, p2) \<Rightarrow> Some (None, p2)
          | Some (Some rest, p2) \<Rightarrow> Some (Some ((name, parameterType) # rest), p2)))"

text \<open>
  \<^verbatim>\<open>FunctionPrototype.resolve\<close> on the prototype behind \<open>proto\<close>. \<open>None\<close> is "out of
  fuel" in a type resolution; otherwise the call throws, or returns an instance or null.
\<close>

definition resolve ::
    "(Type list \<Rightarrow> string \<Rightarrow> string \<Rightarrow> string) \<Rightarrow> nat \<Rightarrow> ref \<Rightarrow> Type list option
      \<Rightarrow> (string \<rightharpoonup> Type) option \<Rightarrow> Program \<Rightarrow> (exception + ref option \<times> Program) option" where
  "resolve tts n proto targs ctx p =
     (let instanceKey = (case targs of Some ts \<Rightarrow> tts ts [] [] | None \<Rightarrow> []) in
      case instances (heap p proto) instanceKey of
        Some instance \<Rightarrow> Some (Inr (Some instance, p))
      | None \<Rightarrow>
         (case fn_declaration (heap p proto) of
            None \<Rightarrow> Some (Inl (Error ''declaration expected''))
          | Some decl \<Rightarrow>
             (case (case targs of
                      None \<Rightarrow> Inr ctx
                    | Some ts \<Rightarrow>
                        if length ts \<noteq> 0
                        then map_sum id Some
                               (bindTypeParameters (fd_typeParameters decl) ts
                                  (case ctx of None \<Rightarrow> Map.empty | Some inherited \<Rightarrow> inherited))
                        else Inr ctx) of
                Inl e \<Rightarrow> Some (Inl e)
              | Inr ctx1 \<Rightarrow>
                 (case resolveParameters tts n (fd_parameters decl) ctx1 p of
                    None \<Rightarrow> None
                  | Some (None, p1) \<Rightarrow> Some (Inr (None, p1))
                  | Some (Some params, p1) \<Rightarrow>
                     (case (if isSetter (heap p1 proto) then Some (Some Type_void, p1)
                            else case fd_returnType decl of
                                   None \<Rightarrow> Some (None, p1)
                                 | Some typeNode \<Rightarrow> resolveType tts n typeNode ctx1 True p1) of
                        None \<Rightarrow> None
                      | Some (None, p2) \<Rightarrow> Some (Inr (None, p2))
                      | Some (Some rt, p2) \<Rightarrow>
                         (let inm = (if length instanceKey \<noteq> 0
                                     then internalName (heap p2 proto) @ ''<'' @ instanceKey @ ''>''
                                     else internalName (heap p2 proto))
                          in case new_Function proto inm targs params rt None p2 of
                               Inl e \<Rightarrow> Some (Inl e)
                             | Inr (instance, p3) \<Rightarrow>
                                 Some (Inr (Some instance,
                                   update proto
                                     (\<lambda>e. e\<lparr>instances := (instances e)(instanceKey \<mapsto> instance)\<rparr>)
                                     p3))))))))"

section \<open>Notions the properties are stated with\<close>

text \<open>\<open>reports_only code p p'\<close>: the program \<open>p'\<close> is \<open>p\<close> with diagnostics appended,
  all of them of the one code.\<close>

definition reports_only :: "DiagnosticCode \<Rightarrow> Program \<Rightarrow> Program \<Rightarrow> bool" where
  "reports_only code p p' =
     (\<exists>ds. p' = p\<lparr>diagnostics := diagnostics p @ ds\<rparr> \<and> list_all (\<lambda>d. fst d = code) ds)"

text \<open>The number of type-argument nodes supplied, null counting as zero.\<close>

definition argumentCount :: "TypeNode list option \<Rightarrow> nat" where
  "argumentCount nodes = (case nodes of None \<Rightarrow> 0 | Some ns \<Rightarrow> length ns)"

text \<open>The first hit of a list of lookups, in order.\<close>

fun firstHit :: "'a option list \<Rightarrow> 'a option" where
  "firstHit [] = None"
| "firstHit (Some x # rest) = Some x"
| "firstHit (None # rest) = firstHit rest"

text \<open>\<open>isNamespaceChain p start chain\<close>: following the \<^verbatim>\<open>namespace\<close> links from
  \<open>start\<close> visits exactly the objects of \<open>chain\<close>, innermost first, and then ends.\<close>

fun isNamespaceChain :: "Program \<Rightarrow> ref option \<Rightarrow> ref list \<Rightarrow> bool" where
  "isNamespaceChain p None chain = (chain = [])"
| "isNamespaceChain p (Some ns) [] = False"
| "isNamespaceChain p (Some ns) (n # chain) =
     (n = ns \<and> isNamespaceChain p (namespace (heap p ns)) chain)"

text \<open>What the spec has \<^verbatim>\<open>resolveIdentifier\<close> probe, in its order: the function's locals,
  \<^verbatim>\<open><namespaceInternalName>.<name>\<close> for each enclosing namespace, \<^verbatim>\<open><sourcePath>/<name>\<close>,
  then the bare name.\<close>

definition identifierCandidates :: "string \<Rightarrow> string \<Rightarrow> ref \<Rightarrow> ref list \<Rightarrow> Program \<Rightarrow> ref option list" where
  "identifierCandidates name source contextualFunction chain p =
     [locals (heap p contextualFunction) name]
     @ map (\<lambda>ns. get (elements p) (internalName (heap p ns) @ ''.'' @ name)) chain
     @ [get (elements p) (source @ ''/'' @ name), get (elements p) name]"

text \<open>The cache key of a type-argument list, and the internal name the spec gives an
  instance: the prototype's, suffixed with the key in angle brackets exactly when the key
  is not empty.\<close>

definition instanceKey :: "(Type list \<Rightarrow> string \<Rightarrow> string \<Rightarrow> string) \<Rightarrow> Type list option \<Rightarrow> string" where
  "instanceKey tts targs = (case targs of Some ts \<Rightarrow> tts ts [] [] | None \<Rightarrow> [])"



text \<open>\<open>resolveCalls tts proto p p'\<close>: some sequence of returning calls of
  \<^verbatim>\<open>resolve\<close> on the prototype leads from \<open>p\<close> to \<open>p'\<close>.\<close>

inductive resolveCalls ::
    "(Type list \<Rightarrow> string \<Rightarrow> string \<Rightarrow> string) \<Rightarrow> ref \<Rightarrow> Program \<Rightarrow> Program \<Rightarrow> bool"
  for tts :: "Type list \<Rightarrow> string \<Rightarrow> string \<Rightarrow> string" and proto :: ref
where
  no_call: "resolveCalls tts proto p p"
| one_more: "resolveCalls tts proto p p1 \<Longrightarrow>
     resolve tts n proto targs ctx p1 = Some (Inr (res, p2)) \<Longrightarrow>
     resolveCalls tts proto p p2"







section \<open>Concrete programs the properties are run on\<close>

text \<open>A program with the primitive types and the alias \<^verbatim>\<open>type T = i32\<close>.\<close>

definition aliasProgram :: Program where
  "aliasProgram = newProgram\<lparr>types := initialTypes WASM32,
      typeAliases := [''T'' \<mapsto> TypeNode ''i32'' [] ''a'']\<rparr>"

text \<open>The spec's scenario S6, \<^verbatim>\<open>namespace N { function f() {} } function f() {}\<close> in
  file \<^verbatim>\<open>a\<close>: the namespace, the two prototypes, an instance of each (the one of
  \<^verbatim>\<open>N.f\<close> with a local \<^verbatim>\<open>x\<close>), and the local.\<close>

definition shadowProgram :: Program where
  "shadowProgram = newProgram\<lparr>
     elements := [''a/N'' \<mapsto> Some 0, ''a/N.f'' \<mapsto> Some 1, ''a/f'' \<mapsto> Some 2],
     heap := (\<lambda>r. nullElement)
       (0 := (new_Element NAMESPACE ''N'' ''a/N'')\<lparr>members := Some [''f'' \<mapsto> 1]\<rparr>,
        1 := (new_Element FUNCTION_PROTOTYPE ''f'' ''a/N.f'')\<lparr>namespace := Some 0\<rparr>,
        2 := new_Element FUNCTION_PROTOTYPE ''f'' ''a/f'',
        3 := (new_Element FUNCTION ''f'' ''a/N.f'')\<lparr>prototype := 1, locals := [''x'' \<mapsto> 5]\<rparr>,
        4 := (new_Element FUNCTION ''f'' ''a/f'')\<lparr>prototype := 2\<rparr>,
        5 := new_Local ''x'' 0 (Some Type_i32)),
     nextRef := 6\<rparr>"




text \<open>Declarations as the parser hands them over: a declaration with its modifiers, one
  with none, and a function without parameters that returns \<^verbatim>\<open>void\<close>.\<close>

definition variableDecl :: "string \<Rightarrow> string \<Rightarrow> ModifierKind list option \<Rightarrow> Decl" where
  "variableDecl name inm mods = \<lparr>d_name = name, d_internalName = inm, d_modifiers = mods, d_decorators = None\<rparr>"

definition plainDecl :: "string \<Rightarrow> string \<Rightarrow> Decl" where
  "plainDecl name inm = \<lparr>d_name = name, d_internalName = inm, d_modifiers = None, d_decorators = None\<rparr>"

definition functionDecl :: "string \<Rightarrow> string \<Rightarrow> ModifierKind list option \<Rightarrow> string \<Rightarrow> FunctionDecl" where
  "functionDecl name inm mods source = \<lparr>d_name = name, d_internalName = inm, d_modifiers = mods,
     d_decorators = None, fd_typeParameters = [], fd_parameters = [],
     fd_returnType = Some (TypeNode ''void'' [] source)\<rparr>"

text \<open>File \<^verbatim>\<open>a\<close>: \<^verbatim>\<open>var y; export { y as x }; export var x;\<close>, and the same with
  functions.\<close>

definition exportedVariableSource :: "Statement list" where
  "exportedVariableSource =
     [VariableStatement [variableDecl ''y'' ''a/y'' None],
      ExportStatement [\<lparr>em_identifier = ''y'', em_externalIdentifier = ''x'', em_source = ''a'',
                        em_path = []\<rparr>] None,
      VariableStatement [variableDecl ''x'' ''a/x'' (Some [EXPORT])]]"

definition exportedFunctionSource :: "Statement list" where
  "exportedFunctionSource =
     [FunctionDeclaration (functionDecl ''y'' ''a/y'' None ''a''),
      ExportStatement [\<lparr>em_identifier = ''y'', em_externalIdentifier = ''x'', em_source = ''a'',
                        em_path = []\<rparr>] None,
      FunctionDeclaration (functionDecl ''x'' ''a/x'' (Some [EXPORT]) ''a'')]"

text \<open>File \<^verbatim>\<open>a\<close>: \<^verbatim>\<open>namespace N { interface I {} class C {} }\<close>.\<close>

definition interfaceInNamespaceSource :: "Statement list" where
  "interfaceInNamespaceSource =
     [NamespaceDeclaration (plainDecl ''N'' ''a/N'')
        [InterfaceDeclaration (plainDecl ''I'' ''a/N.I'') [] [],
         ClassDeclaration (plainDecl ''C'' ''a/N.C'') [] []]]"


text \<open>File \<^verbatim>\<open>a\<close>: \<^verbatim>\<open>@global function f(): void {} type f = i32;\<close>.\<close>

definition typeAfterFunctionSource :: "Statement list" where
  "typeAfterFunctionSource =
     [FunctionDeclaration ((functionDecl ''f'' ''a/f'' None ''a'')
        \<lparr>d_decorators := Some [\<lparr>dec_name = DecoratorIdentifier ''global'', dec_arguments = 0\<rparr>]\<rparr>),
      TypeDeclaration ''f'' (TypeNode ''i32'' [] ''a'')]"


text \<open>A program in which \<^verbatim>\<open>main/f\<close> is a key of \<^verbatim>\<open>elements\<close> bound to \<^verbatim>\<open>undefined\<close>.\<close>

definition unboundKeyProgram :: Program where
  "unboundKeyProgram = newProgram\<lparr>elements := [''main/f'' \<mapsto> None]\<rparr>"

text \<open>The spec's scenario S2. File \<^verbatim>\<open>a\<close>: \<^verbatim>\<open>export { f } from "b";\<close>; file
  \<^verbatim>\<open>b\<close>: \<^verbatim>\<open>export function f(): void {}\<close>; file \<^verbatim>\<open>main\<close>:
  \<^verbatim>\<open>import { f } from "a";\<close>.\<close>

definition reexportSourceA :: "Statement list" where
  "reexportSourceA = [ExportStatement [\<lparr>em_identifier = ''f'', em_externalIdentifier = ''f'',
       em_source = ''a'', em_path = ''b''\<rparr>] (Some ''b'')]"

definition reexportSourceB :: "Statement list" where
  "reexportSourceB = [FunctionDeclaration (functionDecl ''f'' ''b/f'' (Some [EXPORT]) ''b'')]"

definition reexportSourceMain :: "Statement list" where
  "reexportSourceMain = [ImportStatement (Some [\<lparr>id_internalName = ''main/f'',
       id_externalIdentifier = ''f'', id_path = ''a''\<rparr>]) None ''a'' ''main'']"

text \<open>A cycle of re-exports. File \<^verbatim>\<open>a\<close>: \<^verbatim>\<open>export { f } from "b";\<close>; file \<^verbatim>\<open>b\<close>:
  \<^verbatim>\<open>export { f } from "a";\<close>.\<close>

definition cyclicSourceA :: "Statement list" where
  "cyclicSourceA = [ExportStatement [\<lparr>em_identifier = ''f'', em_externalIdentifier = ''f'',
       em_source = ''a'', em_path = ''b''\<rparr>] (Some ''b'')]"

definition cyclicSourceB :: "Statement list" where
  "cyclicSourceB = [ExportStatement [\<lparr>em_identifier = ''f'', em_externalIdentifier = ''f'',
       em_source = ''b'', em_path = ''a''\<rparr>] (Some ''a'')]"


section \<open>Properties of the type resolver\<close>

lemma toString10_0 [simp]: "toString10 0 = ''0''"
  by (simp add: toString10.simps)

lemma reports_only_refl: "reports_only code p p"
  unfolding reports_only_def by (rule exI[of _ "[]"]) simp

lemma reports_only_trans:
  "reports_only code p p1 \<Longrightarrow> reports_only code p1 p2 \<Longrightarrow> reports_only code p p2"
  unfolding reports_only_def
  apply (elim exE conjE)
  subgoal for ds es
    by (rule exI[of _ "ds @ es"]) auto
  done

lemma reports_only_error: "reports_only code p (error code args p)"
  unfolding reports_only_def error_def by (rule exI[of _ "[(code, args)]"]) simp

lemma reports_only_notFound: "reports_only Cannot_find_name_0 p (notFound r a p)"
  by (simp add: notFound_def reports_only_error reports_only_refl)

lemma reports_only_other:
  "reports_only code p p' \<Longrightarrow> code \<noteq> code' \<Longrightarrow>
     \<exists>ds. p' = p\<lparr>diagnostics := diagnostics p @ ds\<rparr> \<and> \<not> list_ex (\<lambda>d. fst d = code') ds"
  unfolding reports_only_def by (auto simp add: list_all_iff list_ex_iff)

text \<open>How a call of \<open>resolveType\<close> that returns came to its program: through the
  resolution of the type arguments, then possibly an alias, then possibly a report.\<close>

lemma resolveType_Suc_cases:
  assumes "resolveType tts (Suc n) node ctx r p = Some (res, p')"
  shows "resolveTypes tts n (tn_typeArguments node) ctx r p = Some (None, p')
   \<or> (\<exists>paramTypes. resolveTypes tts n (tn_typeArguments node) ctx r p = Some (Some paramTypes, p'))
   \<or> (\<exists>paramTypes p1 a. resolveTypes tts n (tn_typeArguments node) ctx r p = Some (Some paramTypes, p1) \<and>
       p' = notFound r a p1)
   \<or> (\<exists>paramTypes p1 al t. resolveTypes tts n (tn_typeArguments node) ctx r p = Some (Some paramTypes, p1) \<and>
       resolveType tts n al None r p1 = Some (Some t, p'))
   \<or> (\<exists>paramTypes p1 al p2 a. resolveTypes tts n (tn_typeArguments node) ctx r p = Some (Some paramTypes, p1) \<and>
       resolveType tts n al None r p1 = Some (None, p2) \<and>
       p' = notFound r a p2)"
  using assms
  apply (simp only: resolveType.simps Let_def)
  apply (simp split: option.splits prod.splits if_splits)
  apply (auto)
     apply blast+
  done

lemma resolveTypes_Cons_cases:
  assumes "resolveTypes tts n (node # nodes) ctx r p = Some (res, p')"
  shows "resolveType tts n node ctx r p = Some (None, p')
    \<or> (\<exists>t p1 rs. resolveType tts n node ctx r p = Some (Some t, p1) \<and>
          resolveTypes tts n nodes ctx r p1 = Some (rs, p'))"
  using assms by (simp split: option.splits prod.splits)

lemma resolveTypes_frame_step:
  assumes "\<And>node ctx r p res p'. resolveType tts n node ctx r p = Some (res, p') \<Longrightarrow>
             reports_only Cannot_find_name_0 p p'"
  shows "resolveTypes tts n nodes ctx r p = Some (res, p') \<Longrightarrow> reports_only Cannot_find_name_0 p p'"
proof (induction nodes arbitrary: p res)
  case Nil
  then show ?case by (simp add: reports_only_refl)
next
  case (Cons node nodes)
  from resolveTypes_Cons_cases[OF Cons.prems] show ?case
    using assms Cons.IH by (blast intro: reports_only_trans)
qed

text \<open>A type resolution changes nothing of the program but its diagnostics, and adds
  none but \<open>Cannot_find_name_0\<close>.\<close>

lemma resolveType_frame:
  "resolveType tts n node ctx r p = Some (res, p') \<Longrightarrow> reports_only Cannot_find_name_0 p p'"
proof (induction n arbitrary: node ctx r p res p')
  case 0
  then show ?case by simp
next
  case (Suc n)
  have tys: "reports_only Cannot_find_name_0 q q'"
    if "resolveTypes tts n nodes c b q = Some (rs, q')" for nodes c b q rs q'
    using that by (rule resolveTypes_frame_step[rotated]) (rule Suc.IH)
  from resolveType_Suc_cases[OF Suc.prems] show ?case
    using tys Suc.IH
    by (elim disjE exE conjE) (blast intro: reports_only_trans reports_only_notFound)+
qed

lemma resolveTypes_frame:
  "resolveTypes tts n nodes ctx r p = Some (res, p') \<Longrightarrow> reports_only Cannot_find_name_0 p p'"
  using resolveTypes_frame_step[of tts n] resolveType_frame by blast

text \<open>
  Claim C5, as amended. Let the number of type parameters differ from the number of
  type-argument nodes (null counting as zero). Then \<open>resolveTypeArguments\<close> returns
  null, whatever the nodes, the contextual arguments and the fuel are, so without a call
  of \<open>resolveType\<close>; and it reports one \<open>Expected_0_type_arguments_but_got_1\<close>, with
  the two numbers, when there is a place to report at (at least one node was supplied,
  or an alternative report node was given), and nothing when there is none. Let the
  numbers be equal. Then the call is the loop that resolves the nodes one by one with
  reporting on, and a call that returns leaves the program it was given with
  diagnostics appended, none of them an \<open>Expected_0_type_arguments_but_got_1\<close>.
\<close>

theorem resolveTypeArguments_arity:
  "(length typeParameters \<noteq> argumentCount nodes \<longrightarrow>
      resolveTypeArguments tts n typeParameters nodes ctx alt p =
        Some (None,
          if argumentCount nodes \<noteq> 0 \<or> alt
          then p\<lparr>diagnostics := diagnostics p @
                  [(Expected_0_type_arguments_but_got_1,
                    [toString10 (length typeParameters), toString10 (argumentCount nodes)])]\<rparr>
          else p))
   \<and> (length typeParameters = argumentCount nodes \<longrightarrow>
      resolveTypeArguments tts n typeParameters nodes ctx alt p =
        resolveTypes tts n (case nodes of None \<Rightarrow> [] | Some ns \<Rightarrow> ns) ctx True p
      \<and> (\<forall>res p'. resolveTypeArguments tts n typeParameters nodes ctx alt p = Some (res, p') \<longrightarrow>
            (\<exists>ds. p' = p\<lparr>diagnostics := diagnostics p @ ds\<rparr> \<and>
                  \<not> list_ex (\<lambda>d. fst d = Expected_0_type_arguments_but_got_1) ds)))"
proof (intro conjI impI allI)
  assume "length typeParameters \<noteq> argumentCount nodes"
  then show "resolveTypeArguments tts n typeParameters nodes ctx alt p =
        Some (None,
          if argumentCount nodes \<noteq> 0 \<or> alt
          then p\<lparr>diagnostics := diagnostics p @
                  [(Expected_0_type_arguments_but_got_1,
                    [toString10 (length typeParameters), toString10 (argumentCount nodes)])]\<rparr>
          else p)"
    by (simp add: resolveTypeArguments_def argumentCount_def error_def Let_def)
next
  assume "length typeParameters = argumentCount nodes"
  then show eq: "resolveTypeArguments tts n typeParameters nodes ctx alt p =
        resolveTypes tts n (case nodes of None \<Rightarrow> [] | Some ns \<Rightarrow> ns) ctx True p"
    by (simp add: resolveTypeArguments_def argumentCount_def Let_def)
  fix res p'
  assume "resolveTypeArguments tts n typeParameters nodes ctx alt p = Some (res, p')"
  with eq have "resolveTypes tts n (case nodes of None \<Rightarrow> [] | Some ns \<Rightarrow> ns) ctx True p = Some (res, p')"
    by simp
  then have "reports_only Cannot_find_name_0 p p'" by (rule resolveTypes_frame)
  then show "\<exists>ds. p' = p\<lparr>diagnostics := diagnostics p @ ds\<rparr> \<and>
                  \<not> list_ex (\<lambda>d. fst d = Expected_0_type_arguments_but_got_1) ds"
    using reports_only_other[of Cannot_find_name_0 p p' Expected_0_type_arguments_but_got_1] by simp
qed

text \<open>The theorem at one type parameter: with two type-argument nodes the call reports
  the mismatch and returns null, with no fuel at all; with the one node \<^verbatim>\<open>i32\<close> it
  returns the type and reports nothing.\<close>

theorem resolveTypeArguments_arity_witness:
  "resolveTypeArguments (\<lambda>ts pre post. []) 0 [''T'']
      (Some [TypeNode ''i32'' [] ''a'', TypeNode ''i32'' [] ''a'']) None False newProgram
     = Some (None, newProgram\<lparr>diagnostics := [(Expected_0_type_arguments_but_got_1, [''1'', ''2''])]\<rparr>)
   \<and> resolveTypeArguments (\<lambda>ts pre post. []) (Suc 0) [''T'']
      (Some [TypeNode ''i32'' [] ''a'']) None False aliasProgram
     = Some (Some [Type_i32], aliasProgram)"
proof -
  have one: "length [''T''] \<noteq> argumentCount (Some [TypeNode ''i32'' [] ''a'', TypeNode ''i32'' [] ''a''])"
    and two: "length [''T''] = argumentCount (Some [TypeNode ''i32'' [] ''a''])"
    by (simp_all add: argumentCount_def)
  from resolveTypeArguments_arity[of "[''T'']"
         "Some [TypeNode ''i32'' [] ''a'', TypeNode ''i32'' [] ''a'']"
         "\<lambda>ts pre post. []" 0 None False newProgram] one
  have a: "resolveTypeArguments (\<lambda>ts pre post. []) 0 [''T'']
      (Some [TypeNode ''i32'' [] ''a'', TypeNode ''i32'' [] ''a'']) None False newProgram
     = Some (None, newProgram\<lparr>diagnostics := [(Expected_0_type_arguments_but_got_1, [''1'', ''2''])]\<rparr>)"
    by (simp add: argumentCount_def newProgram_def toString10.simps)
  from resolveTypeArguments_arity[of "[''T'']" "Some [TypeNode ''i32'' [] ''a'']"
         "\<lambda>ts pre post. []" "Suc 0" None False aliasProgram] two
  have "resolveTypeArguments (\<lambda>ts pre post. []) (Suc 0) [''T'']
      (Some [TypeNode ''i32'' [] ''a'']) None False aliasProgram
     = resolveTypes (\<lambda>ts pre post. []) (Suc 0) [TypeNode ''i32'' [] ''a''] None True aliasProgram"
    by (simp only: option.case simp_thms)
  also have "\<dots> = Some (Some [Type_i32], aliasProgram)"
    by (simp add: aliasProgram_def newProgram_def initialTypes_def PATH_DELIMITER_def Let_def)
  finally have b: "resolveTypeArguments (\<lambda>ts pre post. []) (Suc 0) [''T'']
      (Some [TypeNode ''i32'' [] ''a'']) None False aliasProgram
     = Some (Some [Type_i32], aliasProgram)" .
  from a b show ?thesis by simp
qed

text \<open>
  Claim C5 as stated fails: one type parameter, no type-argument nodes and no alternative
  report node is a mismatch, and the call returns null leaving the program, and so its
  diagnostics, as they were.
\<close>

theorem resolveTypeArguments_silent_mismatch:
  "length [''T''] \<noteq> argumentCount None \<and>
   resolveTypeArguments (\<lambda>ts pre post. []) (Suc 0) [''T''] None None False newProgram
     = Some (None, newProgram)"
  by (simp add: resolveTypeArguments_def argumentCount_def)




section \<open>Properties of the expression resolver\<close>

lemma firstHit_append:
  "firstHit (xs @ ys) = (case firstHit xs of Some x \<Rightarrow> Some x | None \<Rightarrow> firstHit ys)"
  by (induction xs rule: firstHit.induct) simp_all

lemma searchNamespaces_chain:
  "isNamespaceChain p (Some ns) chain \<Longrightarrow>
   searchNamespaces p name ns =
     Some (firstHit (map (\<lambda>n. get (elements p) (internalName (heap p n) @ ''.'' @ name)) chain))"
proof (induction chain arbitrary: ns)
  case Nil
  then show ?case by simp
next
  case (Cons n chain)
  then have n: "n = ns" and rest: "isNamespaceChain p (namespace (heap p ns)) chain" by simp_all
  show ?case
  proof (cases "namespace (heap p ns)")
    case None
    with rest have "chain = []" by simp
    with None n show ?thesis
      by (subst searchNamespaces.simps) (simp add: STATIC_DELIMITER_def split: option.splits)
  next
    case (Some outer)
    with rest have "isNamespaceChain p (Some outer) chain" by simp
    from Cons.IH[OF this] Some n show ?thesis
      by (subst searchNamespaces.simps) (simp add: STATIC_DELIMITER_def split: option.splits)
  qed
qed

text \<open>
  Claim C3. Where the \<^verbatim>\<open>namespace\<close> links from the contextual function's prototype
  form the chain \<open>chain\<close>, \<^verbatim>\<open>resolveIdentifier\<close> returns the first hit among the
  function's locals by simple name, then \<^verbatim>\<open><namespaceInternalName>.<name>\<close> in
  \<^verbatim>\<open>elements\<close> for each namespace of the chain from the innermost outwards, then
  \<^verbatim>\<open><sourcePath>/<name>\<close>, then \<^verbatim>\<open><name>\<close>, and leaves the program as it was; when all
  miss it returns null and reports \<open>Cannot_find_name_0\<close>.
\<close>

theorem resolveIdentifier_scope_order:
  assumes "isNamespaceChain p (namespace (heap p (prototype (heap p contextualFunction)))) chain"
  shows "resolveIdentifier name source contextualFunction p =
     Some (case firstHit (identifierCandidates name source contextualFunction chain p) of
             Some element \<Rightarrow> (Some element, p)
           | None \<Rightarrow> (None, error Cannot_find_name_0 [name] p))"
proof (cases "namespace (heap p (prototype (heap p contextualFunction)))")
  case None
  with assms have "chain = []" by simp
  with None show ?thesis
    by (simp add: resolveIdentifier_def identifierCandidates_def PATH_DELIMITER_def split: option.splits)
next
  case (Some ns)
  with assms have "isNamespaceChain p (Some ns) chain" by simp
  from searchNamespaces_chain[OF this, of name] Some show ?thesis
    by (simp add: resolveIdentifier_def identifierCandidates_def PATH_DELIMITER_def firstHit_append
             split: option.splits)
qed

text \<open>The theorem in scenario S6: from inside \<^verbatim>\<open>N.f\<close> the name \<^verbatim>\<open>f\<close> is \<^verbatim>\<open>N.f\<close> and
  \<^verbatim>\<open>x\<close> is the local; from the top-level function \<^verbatim>\<open>f\<close> is the top-level prototype
  and \<^verbatim>\<open>x\<close> is not found.\<close>

theorem resolveIdentifier_scope_order_witness:
  "isNamespaceChain shadowProgram (namespace (heap shadowProgram (prototype (heap shadowProgram 3)))) [0]
   \<and> isNamespaceChain shadowProgram (namespace (heap shadowProgram (prototype (heap shadowProgram 4)))) []
   \<and> resolveIdentifier ''f'' ''a'' 3 shadowProgram = Some (Some 1, shadowProgram)
   \<and> resolveIdentifier ''f'' ''a'' 4 shadowProgram = Some (Some 2, shadowProgram)
   \<and> resolveIdentifier ''x'' ''a'' 3 shadowProgram = Some (Some 5, shadowProgram)
   \<and> resolveIdentifier ''x'' ''a'' 4 shadowProgram
        = Some (None, error Cannot_find_name_0 [''x''] shadowProgram)"
proof -
  have c3: "isNamespaceChain shadowProgram
              (namespace (heap shadowProgram (prototype (heap shadowProgram 3)))) [0]"
    by (simp add: shadowProgram_def newProgram_def new_Element_def nullElement_def new_Local_def)
  have c4: "isNamespaceChain shadowProgram
              (namespace (heap shadowProgram (prototype (heap shadowProgram 4)))) []"
    by (simp add: shadowProgram_def newProgram_def new_Element_def nullElement_def new_Local_def)
  have "resolveIdentifier ''f'' ''a'' 3 shadowProgram = Some (Some 1, shadowProgram)"
    using resolveIdentifier_scope_order[OF c3, of "''f''" "''a''"]
    by (simp add: identifierCandidates_def get_def shadowProgram_def newProgram_def
          new_Element_def nullElement_def new_Local_def)
  moreover have "resolveIdentifier ''f'' ''a'' 4 shadowProgram = Some (Some 2, shadowProgram)"
    using resolveIdentifier_scope_order[OF c4, of "''f''" "''a''"]
    by (simp add: identifierCandidates_def get_def shadowProgram_def newProgram_def
          new_Element_def nullElement_def new_Local_def)
  moreover have "resolveIdentifier ''x'' ''a'' 3 shadowProgram = Some (Some 5, shadowProgram)"
    using resolveIdentifier_scope_order[OF c3, of "''x''" "''a''"]
    by (simp add: identifierCandidates_def get_def shadowProgram_def newProgram_def
          new_Element_def nullElement_def new_Local_def)
  moreover have "resolveIdentifier ''x'' ''a'' 4 shadowProgram
        = Some (None, error Cannot_find_name_0 [''x''] shadowProgram)"
    using resolveIdentifier_scope_order[OF c4, of "''x''" "''a''"]
    by (simp add: identifierCandidates_def get_def shadowProgram_def newProgram_def
          new_Element_def nullElement_def new_Local_def)
  ultimately show ?thesis using c3 c4 by simp
qed


section \<open>Properties of the instance cache\<close>

















section \<open>Properties of the binder\<close>

text \<open>The definitions a run of the binder on a concrete source unfolds.\<close>

lemmas flag_defs = Flags_NONE_def Flags_COMPILED_def Flags_IMPORTED_def Flags_EXPORTED_def
  Flags_BUILTIN_def Flags_DECLARED_def Flags_GENERIC_def Flags_CONSTANT_def
  Flags_CONSTANT_VALUE_def Flags_INSTANCE_def Flags_GETTER_def Flags_SETTER_def
  Flags_GLOBAL_def Flags_READONLY_def Flags_PUBLIC_def Flags_PROTECTED_def Flags_PRIVATE_def

lemmas binder_eval = initialize_def initializeStatement_def initializeExports_def
  initializeExport_def walkQueuedExports.simps initializeImports_def initializeImport_def
  initializeFunction_def initializeClass_def initializeEnum_def initializeEnumValue_def
  initializeInterface_def initializeVariable_def initializeType_def
  initializeField_def initializeMethod_def initializeAccessor_def
  new_FunctionPrototype_def new_ClassPrototype_def new_InterfacePrototype_def new_Namespace_def
  new_Enum_def new_EnumValue_def new_Global_def new_FieldPrototype_def new_Property_def
  new_Element_def nullElement_def newProgram_def
  declaredFlags_def FunctionPrototype_modifier_def ClassPrototype_modifier_def
  Namespace_modifier_def Enum_modifier_def Global_modifier_def FieldPrototype_modifier_def
  alloc_def update_def addGlobalAlias_def hasDecorator_def hasModifier_def addFileExport_def addMember_def
  isExported_def has_def get_def error_def tryResolveImport.simps resolveQueuedExport.simps
  Let_def PATH_DELIMITER_def STATIC_DELIMITER_def INSTANCE_DELIMITER_def
  GETTER_PREFIX_def SETTER_PREFIX_def flag_defs

text \<open>
  Claim C6, as amended. Whenever the internal name a class, enum, interface, variable,
  function or import declaration carries (for a namespace-form import, the name it is
  given in its file) is already a key of \<^verbatim>\<open>elements\<close>, the handler leaves the program
  as it was but for exactly one more diagnostic, \<open>Duplicate_identifier_0\<close> with that
  name: no entity is created or inserted, and the key keeps the binding it had. A
  namespace declaration of such a name is not reported on that account. Where the key is
  bound to an element, \<^verbatim>\<open>initializeNamespace\<close> makes no entity and takes that element
  as the namespace; where the key is bound to \<^verbatim>\<open>undefined\<close>, it makes a new namespace
  (if the constructor accepts the modifiers) and binds the key to it; either way it goes
  on to its check against the parent's members or against \<^verbatim>\<open>exports\<close>, and then to
  its members. A type declaration is
  checked by its simple name, the one name its handler reads, against \<^verbatim>\<open>types\<close> and
  \<^verbatim>\<open>typeAliases\<close> and not against \<^verbatim>\<open>elements\<close>: a name that is a key of
  \<^verbatim>\<open>elements\<close> is reported as \<open>Duplicate_identifier_0\<close> when one of the two has it,
  and entered in \<^verbatim>\<open>typeAliases\<close> when neither has.
\<close>

theorem duplicate_identifier_dropped:
  assumes "has (elements p) inm"
  shows "(d_internalName decl = inm \<longrightarrow>
            initializeClass decl tps cms ns p
              = Inr (p\<lparr>diagnostics := diagnostics p @ [(Duplicate_identifier_0, [inm])]\<rparr>)
          \<and> initializeEnum decl vals ns p
              = Inr (p\<lparr>diagnostics := diagnostics p @ [(Duplicate_identifier_0, [inm])]\<rparr>)
          \<and> initializeInterface decl tps cms ns p
              = Inr (p\<lparr>diagnostics := diagnostics p @ [(Duplicate_identifier_0, [inm])]\<rparr>)
          \<and> initializeVariable decl ns p
              = Inr (p\<lparr>diagnostics := diagnostics p @ [(Duplicate_identifier_0, [inm])]\<rparr>))
       \<and> (d_internalName fdecl = inm \<longrightarrow>
            initializeFunction fdecl ns p
              = Inr (p\<lparr>diagnostics := diagnostics p @ [(Duplicate_identifier_0, [inm])]\<rparr>))
       \<and> (id_internalName idecl = inm \<longrightarrow>
            initializeImport idecl path qes (p, qis)
              = (p\<lparr>diagnostics := diagnostics p @ [(Duplicate_identifier_0, [inm])]\<rparr>, qis))
       \<and> (source @ ''/'' @ nsName = inm \<longrightarrow>
            initializeImports None (Some nsName) path source qes (p, qis)
              = Inr (p\<lparr>diagnostics := diagnostics p @ [(Duplicate_identifier_0, [inm])]\<rparr>, qis))
       \<and> (d_internalName nsdecl = inm \<longrightarrow>
            (\<forall>n. get (elements p) inm = Some n \<longrightarrow>
               initializeNamespace nsdecl mems parentNamespace p =
                 (let (go, p3) =
                        (case parentNamespace of
                           Some pn \<Rightarrow> addMember pn (d_name nsdecl) n inm p
                         | None \<Rightarrow> if isExported (heap p n) then addFileExport inm n p
                                   else (True, p))
                  in if go then initializeNamespaceMembers mems n p3 else Inr p3))
          \<and> (\<forall>c. get (elements p) inm = None \<and>
                   new_Namespace (d_name nsdecl) inm (Some nsdecl) = Inr c \<longrightarrow>
               initializeNamespace nsdecl mems parentNamespace p =
                 (let n = nextRef p;
                      p2 = p\<lparr>heap := (heap p)(n := c\<lparr>namespace := parentNamespace\<rparr>),
                             nextRef := Suc n,
                             elements := (elements p)(inm \<mapsto> Some n)\<rparr>;
                      (go, p3) =
                        (case parentNamespace of
                           Some pn \<Rightarrow> addMember pn (d_name nsdecl) n inm p2
                         | None \<Rightarrow> if isExported c then addFileExport inm n p2
                                   else (True, p2))
                  in if go then initializeNamespaceMembers mems n p3 else Inr p3)))
       \<and> initializeType inm aliased ns p =
            (if has (types p) inm \<or> has (typeAliases p) inm
             then p\<lparr>diagnostics := diagnostics p @ [(Duplicate_identifier_0, [inm])]\<rparr>
             else p\<lparr>typeAliases := (typeAliases p)(inm \<mapsto> aliased)\<rparr>)"
proof -
  have handlers: "(d_internalName decl = inm \<longrightarrow>
            initializeClass decl tps cms ns p
              = Inr (p\<lparr>diagnostics := diagnostics p @ [(Duplicate_identifier_0, [inm])]\<rparr>)
          \<and> initializeEnum decl vals ns p
              = Inr (p\<lparr>diagnostics := diagnostics p @ [(Duplicate_identifier_0, [inm])]\<rparr>)
          \<and> initializeInterface decl tps cms ns p
              = Inr (p\<lparr>diagnostics := diagnostics p @ [(Duplicate_identifier_0, [inm])]\<rparr>)
          \<and> initializeVariable decl ns p
              = Inr (p\<lparr>diagnostics := diagnostics p @ [(Duplicate_identifier_0, [inm])]\<rparr>))
       \<and> (d_internalName fdecl = inm \<longrightarrow>
            initializeFunction fdecl ns p
              = Inr (p\<lparr>diagnostics := diagnostics p @ [(Duplicate_identifier_0, [inm])]\<rparr>))
       \<and> (id_internalName idecl = inm \<longrightarrow>
            initializeImport idecl path qes (p, qis)
              = (p\<lparr>diagnostics := diagnostics p @ [(Duplicate_identifier_0, [inm])]\<rparr>, qis))
       \<and> (source @ ''/'' @ nsName = inm \<longrightarrow>
            initializeImports None (Some nsName) path source qes (p, qis)
              = Inr (p\<lparr>diagnostics := diagnostics p @ [(Duplicate_identifier_0, [inm])]\<rparr>, qis))"
    using assms
    by (simp add: initializeClass_def initializeEnum_def initializeInterface_def
          initializeVariable_def initializeFunction_def initializeImport_def initializeImports_def
          error_def Let_def)
  have reuse: "initializeNamespace nsdecl mems parentNamespace p =
                 (let (go, p3) =
                        (case parentNamespace of
                           Some pn \<Rightarrow> addMember pn (d_name nsdecl) n inm p
                         | None \<Rightarrow> if isExported (heap p n) then addFileExport inm n p
                                   else (True, p))
                  in if go then initializeNamespaceMembers mems n p3 else Inr p3)"
    if "d_internalName nsdecl = inm" "get (elements p) inm = Some n" for n
    using that by (simp add: Let_def)
  have fresh: "initializeNamespace nsdecl mems parentNamespace p =
                 (let n = nextRef p;
                      p2 = p\<lparr>heap := (heap p)(n := c\<lparr>namespace := parentNamespace\<rparr>),
                             nextRef := Suc n,
                             elements := (elements p)(inm \<mapsto> Some n)\<rparr>;
                      (go, p3) =
                        (case parentNamespace of
                           Some pn \<Rightarrow> addMember pn (d_name nsdecl) n inm p2
                         | None \<Rightarrow> if isExported c then addFileExport inm n p2
                                   else (True, p2))
                  in if go then initializeNamespaceMembers mems n p3 else Inr p3)"
    if "d_internalName nsdecl = inm" "get (elements p) inm = None"
       "new_Namespace (d_name nsdecl) inm (Some nsdecl) = Inr c" for c
  proof -
    have fl: "flags (c\<lparr>namespace := parentNamespace\<rparr>) = flags c" by simp
    show ?thesis using that
      by (simp add: Let_def alloc_def isExported_def)
  qed
  have ty: "initializeType inm aliased ns p =
            (if has (types p) inm \<or> has (typeAliases p) inm
             then p\<lparr>diagnostics := diagnostics p @ [(Duplicate_identifier_0, [inm])]\<rparr>
             else p\<lparr>typeAliases := (typeAliases p)(inm \<mapsto> aliased)\<rparr>)"
    by (simp add: initializeType_def error_def)
  from handlers reuse fresh ty show ?thesis by blast
qed

text \<open>The theorem in scenario S6, where \<^verbatim>\<open>a/f\<close> is bound to a function prototype: a
  class, a function and an import of that internal name are each dropped with one
  diagnostic, a namespace of that name takes the prototype as the namespace and reports
  nothing, and a type of that name is entered in \<^verbatim>\<open>typeAliases\<close>. And where \<^verbatim>\<open>main/f\<close>
  is bound to \<^verbatim>\<open>undefined\<close>, a namespace of that name is made and bound to the key.\<close>

theorem duplicate_identifier_dropped_witness:
  "has (elements shadowProgram) ''a/f''
   \<and> initializeClass (plainDecl ''f'' ''a/f'') [] [] None shadowProgram
       = Inr (shadowProgram\<lparr>diagnostics := [(Duplicate_identifier_0, [''a/f''])]\<rparr>)
   \<and> initializeFunction (functionDecl ''f'' ''a/f'' None ''a'') None shadowProgram
       = Inr (shadowProgram\<lparr>diagnostics := [(Duplicate_identifier_0, [''a/f''])]\<rparr>)
   \<and> initializeImport \<lparr>id_internalName = ''a/f'', id_externalIdentifier = ''f'', id_path = ''b''\<rparr>
         ''b'' [] (shadowProgram, [])
       = (shadowProgram\<lparr>diagnostics := [(Duplicate_identifier_0, [''a/f''])]\<rparr>, [])
   \<and> initializeNamespace (plainDecl ''f'' ''a/f'') [] None shadowProgram = Inr shadowProgram
   \<and> initializeType ''a/f'' (TypeNode ''i32'' [] ''a'') None shadowProgram
       = shadowProgram\<lparr>typeAliases := [''a/f'' \<mapsto> TypeNode ''i32'' [] ''a'']\<rparr>
   \<and> has (elements unboundKeyProgram) ''main/f''
   \<and> (\<exists>p'. initializeNamespace (plainDecl ''f'' ''main/f'') [] None unboundKeyProgram = Inr p'
          \<and> elements p' ''main/f'' = Some (Some 0) \<and> kind (heap p' 0) = NAMESPACE
          \<and> nextRef p' = 1 \<and> diagnostics p' = [])"
proof -
  have h: "has (elements shadowProgram) ''a/f''"
    by (simp add: has_def shadowProgram_def newProgram_def new_Element_def nullElement_def new_Local_def)
  have d: "diagnostics shadowProgram = []" "types shadowProgram = Map.empty"
      "typeAliases shadowProgram = Map.empty"
      "get (elements shadowProgram) ''a/f'' = Some 2" "\<not> isExported (heap shadowProgram 2)"
    by (simp_all add: shadowProgram_def newProgram_def new_Element_def nullElement_def new_Local_def
          get_def isExported_def Flags_NONE_def Flags_EXPORTED_def)
  from duplicate_identifier_dropped[OF h, of "plainDecl ''f'' ''a/f''" "[]" "[]" None "[]"
         "functionDecl ''f'' ''a/f'' None ''a''"
         "\<lparr>id_internalName = ''a/f'', id_externalIdentifier = ''f'', id_path = ''b''\<rparr>" "''b''" "[]" "[]"
         _ _ "plainDecl ''f'' ''a/f''" "[]" None "TypeNode ''i32'' [] ''a''"]
  have bound: "initializeClass (plainDecl ''f'' ''a/f'') [] [] None shadowProgram
       = Inr (shadowProgram\<lparr>diagnostics := [(Duplicate_identifier_0, [''a/f''])]\<rparr>)
   \<and> initializeFunction (functionDecl ''f'' ''a/f'' None ''a'') None shadowProgram
       = Inr (shadowProgram\<lparr>diagnostics := [(Duplicate_identifier_0, [''a/f''])]\<rparr>)
   \<and> initializeImport \<lparr>id_internalName = ''a/f'', id_externalIdentifier = ''f'', id_path = ''b''\<rparr>
         ''b'' [] (shadowProgram, [])
       = (shadowProgram\<lparr>diagnostics := [(Duplicate_identifier_0, [''a/f''])]\<rparr>, [])
   \<and> initializeNamespace (plainDecl ''f'' ''a/f'') [] None shadowProgram = Inr shadowProgram
   \<and> initializeType ''a/f'' (TypeNode ''i32'' [] ''a'') None shadowProgram
       = shadowProgram\<lparr>typeAliases := [''a/f'' \<mapsto> TypeNode ''i32'' [] ''a'']\<rparr>"
    by (simp add: plainDecl_def functionDecl_def d has_def)
  have u: "has (elements unboundKeyProgram) ''main/f''"
    by (simp add: has_def unboundKeyProgram_def newProgram_def)
  have g: "get (elements unboundKeyProgram) ''main/f'' = None"
      "new_Namespace ''f'' ''main/f'' (Some (plainDecl ''f'' ''main/f''))
         = Inr (new_Element NAMESPACE ''f'' ''main/f'')"
    by (simp_all add: get_def unboundKeyProgram_def newProgram_def new_Namespace_def
          declaredFlags_def plainDecl_def new_Element_def nullElement_def)
  from duplicate_identifier_dropped[OF u, of _ _ _ _ _ _ _ _ _ _ _ _ "plainDecl ''f'' ''main/f''"
         "[]" None] g
  have "initializeNamespace (plainDecl ''f'' ''main/f'') [] None unboundKeyProgram
          = Inr (unboundKeyProgram\<lparr>heap := (heap unboundKeyProgram)
                      (0 := (new_Element NAMESPACE ''f'' ''main/f'')\<lparr>namespace := None\<rparr>),
                   nextRef := Suc 0,
                   elements := (elements unboundKeyProgram)(''main/f'' \<mapsto> Some 0)\<rparr>)"
    by (simp add: plainDecl_def unboundKeyProgram_def newProgram_def new_Element_def
          nullElement_def Let_def isExported_def Flags_NONE_def Flags_EXPORTED_def)
  then have unbound: "\<exists>p'. initializeNamespace (plainDecl ''f'' ''main/f'') [] None unboundKeyProgram = Inr p'
          \<and> elements p' ''main/f'' = Some (Some 0) \<and> kind (heap p' 0) = NAMESPACE
          \<and> nextRef p' = 1 \<and> diagnostics p' = []"
    by (simp add: unboundKeyProgram_def newProgram_def new_Element_def nullElement_def)
  from h bound u unbound show ?thesis by simp
qed

text \<open>
  Claim C6 as stated fails for a namespace and for a type alias. In scenario S6 the
  internal name \<^verbatim>\<open>a/N\<close> is a key of \<^verbatim>\<open>elements\<close>, and a second declaration of the
  namespace leaves the program as it was, diagnostics included. And binding
  \<^verbatim>\<open>@global function f(): void {} type f = i32;\<close> in file \<^verbatim>\<open>a\<close>, where the type
  declaration finds both its internal name \<^verbatim>\<open>a/f\<close> and its simple name \<^verbatim>\<open>f\<close> keys of
  \<^verbatim>\<open>elements\<close>, reports nothing and enters the alias.
\<close>

theorem duplicate_identifier_not_reported:
  "has (elements shadowProgram) (d_internalName (plainDecl ''N'' ''a/N''))
   \<and> initializeNamespace (plainDecl ''N'' ''a/N'') [] None shadowProgram = Inr shadowProgram
   \<and> (\<exists>p. initialize (\<lambda>p. p) WASM32 (newProgram\<lparr>sources := [typeAfterFunctionSource]\<rparr>) = Some (Inr p)
        \<and> has (elements p) ''a/f'' \<and> has (elements p) ''f'' \<and> diagnostics p = []
        \<and> typeAliases p ''f'' = Some (TypeNode ''i32'' [] ''a''))"
  by (simp add: binder_eval shadowProgram_def new_Local_def plainDecl_def functionDecl_def
        typeAfterFunctionSource_def initialTypes_def)























text \<open>
  Claim C7, at the input where the code departs from it. Binding
  \<^verbatim>\<open>var y; export { y as x }; export var x;\<close> finds \<^verbatim>\<open>a/x\<close> taken in \<^verbatim>\<open>exports\<close>
  when it comes to the exported variable, and reports \<open>Duplicate_identifier_0\<close>; the
  same file with functions reports
  \<open>Export_declaration_conflicts_with_exported_declaration_of_0\<close>.
\<close>

theorem exported_variable_conflict:
  "(\<exists>p. initialize (\<lambda>p. p) WASM32 (newProgram\<lparr>sources := [exportedVariableSource]\<rparr>) = Some (Inr p)
        \<and> diagnostics p = [(Duplicate_identifier_0, [''a/x''])])
   \<and> (\<exists>p. initialize (\<lambda>p. p) WASM32 (newProgram\<lparr>sources := [exportedFunctionSource]\<rparr>) = Some (Inr p)
        \<and> diagnostics p = [(Export_declaration_conflicts_with_exported_declaration_of_0, [''a/x''])])"
  by (simp add: binder_eval exportedVariableSource_def exportedFunctionSource_def variableDecl_def
        functionDecl_def)

text \<open>
  Claim C9, at the input where the code departs from it. Binding
  \<^verbatim>\<open>namespace N { interface I {} class C {} }\<close> enters the class in the member map
  of \<^verbatim>\<open>N\<close> under its simple name \<^verbatim>\<open>C\<close>, and the interface under its internal name
  \<^verbatim>\<open>a/N.I\<close>: the map has no key \<^verbatim>\<open>I\<close>.
\<close>

theorem interface_member_key:
  "\<exists>p ms. initialize (\<lambda>p. p) WASM32 (newProgram\<lparr>sources := [interfaceInNamespaceSource]\<rparr>) = Some (Inr p)
     \<and> get (elements p) ''a/N'' = Some 0 \<and> get (elements p) ''a/N.I'' = Some 1
     \<and> get (elements p) ''a/N.C'' = Some 2
     \<and> members (heap p 0) = Some ms \<and> ms ''I'' = None \<and> ms ''a/N.I'' = Some 1 \<and> ms ''C'' = Some 2
     \<and> diagnostics p = []"
  by (simp add: binder_eval interfaceInNamespaceSource_def plainDecl_def)

text \<open>
  Claim C2, at the input where the code departs from it. With the sources bound in the
  order \<^verbatim>\<open>a\<close>, \<^verbatim>\<open>b\<close>, \<^verbatim>\<open>main\<close>, both exports end up bound to the function
  prototype, and \<^verbatim>\<open>main/f\<close> ends up a key of \<^verbatim>\<open>elements\<close> bound to \<^verbatim>\<open>undefined\<close>,
  with no diagnostic. In the order \<^verbatim>\<open>b\<close>, \<^verbatim>\<open>a\<close>, \<^verbatim>\<open>main\<close> all three are the
  prototype.
\<close>

theorem reexport_chain_order:
  "(\<exists>p. initialize (\<lambda>p. p) WASM32
           (newProgram\<lparr>sources := [reexportSourceA, reexportSourceB, reexportSourceMain]\<rparr>)
         = Some (Inr p)
        \<and> exports p ''a/f'' = Some (Some 0) \<and> exports p ''b/f'' = Some (Some 0)
        \<and> elements p ''main/f'' = Some None \<and> diagnostics p = [])
   \<and> (\<exists>p. initialize (\<lambda>p. p) WASM32
           (newProgram\<lparr>sources := [reexportSourceB, reexportSourceA, reexportSourceMain]\<rparr>)
         = Some (Inr p)
        \<and> exports p ''a/f'' = Some (Some 0) \<and> exports p ''b/f'' = Some (Some 0)
        \<and> elements p ''main/f'' = Some (Some 0))"
  by (simp add: binder_eval reexportSourceA_def reexportSourceB_def reexportSourceMain_def
        functionDecl_def)

text \<open>In the four other orders, too, the import is bound to the prototype.\<close>

lemma reexport_chain_other_orders:
  "list_all (\<lambda>srcs. \<exists>p. initialize (\<lambda>p. p) WASM32 (newProgram\<lparr>sources := srcs\<rparr>) = Some (Inr p)
        \<and> exports p ''a/f'' = Some (Some 0) \<and> exports p ''b/f'' = Some (Some 0)
        \<and> elements p ''main/f'' = Some (Some 0))
     [[reexportSourceA, reexportSourceMain, reexportSourceB],
      [reexportSourceMain, reexportSourceA, reexportSourceB],
      [reexportSourceMain, reexportSourceB, reexportSourceA],
      [reexportSourceB, reexportSourceMain, reexportSourceA]]"
  by (simp add: binder_eval reexportSourceA_def reexportSourceB_def reexportSourceMain_def
        functionDecl_def)

lemmas binder_queue_eval = initializeStatement_def initializeExports_def
  initializeExport_def walkQueuedExports.simps initializeImports_def initializeImport_def
  newProgram_def has_def get_def error_def Let_def PATH_DELIMITER_def

text \<open>A queued re-export that refers to its own key, with nothing exported under that
  key, keeps both unguarded loops going for ever.\<close>

lemma tryResolveImport_cycle:
  assumes miss: "get (exports p) rn = None"
    and queued: "map_of qes rn = Some qe"
    and re: "isReExport qe"
    and self: "qe_referencedName qe = rn"
  shows "tryResolveImport p qes rn = None"
proof (rule ccontr)
  assume "tryResolveImport p qes rn \<noteq> None"
  then obtain y where run: "tryResolveImport p qes rn = Some y" by blast
  from run have "\<not> (p = p \<and> qes = qes \<and> rn = rn)"
  proof (rule tryResolveImport.raw_induct[rotated,
           where P = "\<lambda>a b c y. \<not> (a = p \<and> b = qes \<and> c = rn)"], goal_cases)
    case (1 f a b c y)
    show ?case
    proof
      assume "a = p \<and> b = qes \<and> c = rn"
      with 1(2) miss queued re self have "f p qes rn = Some y" by simp
      with 1(1) show False by blast
    qed
  qed
  then show False by simp
qed

lemma resolveQueuedExport_cycle:
  assumes re: "isReExport cur"
    and miss: "get (exports p) (qe_referencedName cur) = None"
    and self: "map_of qes (qe_referencedName cur) = Some cur"
  shows "resolveQueuedExport exportName queuedExport qes cur p = None"
proof (rule ccontr)
  assume "resolveQueuedExport exportName queuedExport qes cur p \<noteq> None"
  then obtain y where run: "resolveQueuedExport exportName queuedExport qes cur p = Some y" by blast
  from run have "\<not> (qes = qes \<and> cur = cur \<and> p = p)"
  proof (rule resolveQueuedExport.raw_induct[rotated,
           where P = "\<lambda>en qe b c d y. \<not> (b = qes \<and> c = cur \<and> d = p)"], goal_cases)
    case (1 f en qe b c d y)
    show ?case
    proof
      assume "b = qes \<and> c = cur \<and> d = p"
      with 1(2) miss re self have "f en qe qes cur p = Some y" by simp
      with 1(1) show False by blast
    qed
  qed
  then show False by simp
qed

text \<open>
  Claim C1, at the input where the code departs from it. For the cycle of re-exports
  between \<^verbatim>\<open>a\<close> and \<^verbatim>\<open>b\<close> the binder queues \<^verbatim>\<open>a/f\<close> as a re-export of
  \<^verbatim>\<open>b/f\<close>, and \<^verbatim>\<open>b/f\<close>, after its guarded walk, as a re-export of \<^verbatim>\<open>b/f\<close> itself.
  \<^verbatim>\<open>initialize\<close> then does not return: the loop over the queued exports never leaves
  that entry, and with the import of \<^verbatim>\<open>main\<close> queued as well, \<^verbatim>\<open>tryResolveImport\<close>
  does not return either.
\<close>

theorem cyclic_reexport_diverges:
  "initialize (\<lambda>p. p) WASM32 (newProgram\<lparr>sources := [cyclicSourceA, cyclicSourceB]\<rparr>) = None
   \<and> initialize (\<lambda>p. p) WASM32
        (newProgram\<lparr>sources := [cyclicSourceA, cyclicSourceB, reexportSourceMain]\<rparr>) = None"
proof -
  let ?qa = "\<lparr>isReExport = True, qe_referencedName = ''b/f'',
              qe_member = \<lparr>em_identifier = ''f'', em_externalIdentifier = ''f'',
                           em_source = ''a'', em_path = ''b''\<rparr>\<rparr>"
  let ?qb = "\<lparr>isReExport = True, qe_referencedName = ''b/f'',
              qe_member = \<lparr>em_identifier = ''f'', em_externalIdentifier = ''f'',
                           em_source = ''b'', em_path = ''a''\<rparr>\<rparr>"
  let ?qes = "[(''a/f'', ?qa), (''b/f'', ?qb)]"
  let ?qi = "\<lparr>qi_internalName = ''main/f'', qi_referencedName = ''b/f'',
              qi_declaration = \<lparr>id_internalName = ''main/f'', id_externalIdentifier = ''f'',
                                id_path = ''a''\<rparr>\<rparr>"
  have first: "initialize (\<lambda>p. p) WASM32 (newProgram\<lparr>sources := [cyclicSourceA, cyclicSourceB]\<rparr>) = None"
  proof -
    let ?p0 = "newProgram\<lparr>sources := [cyclicSourceA, cyclicSourceB], target := WASM32,
                 types := initialTypes WASM32\<rparr>"
    have B: "initializeSources (sources ?p0) (?p0, [], []) = Inr (?p0, ?qes, [])"
      by (simp add: binder_queue_eval cyclicSourceA_def cyclicSourceB_def)
    have L: "resolveQueuedExport ''a/f'' ?qa ?qes ?qb ?p0 = None"
      by (rule resolveQueuedExport_cycle) (simp_all add: get_def newProgram_def)
    have e: "exports ?p0 = Map.empty" by (simp add: newProgram_def)
    have "resolveQueuedExport ''a/f'' ?qa ?qes ?qa ?p0 = None"
      by (subst resolveQueuedExport.simps) (simp add: L get_def e)
    then have "resolveQueuedExports ?qes ?qes ?p0 = None" by simp
    with B show ?thesis by (simp add: initialize_def)
  qed
  have second: "initialize (\<lambda>p. p) WASM32
        (newProgram\<lparr>sources := [cyclicSourceA, cyclicSourceB, reexportSourceMain]\<rparr>) = None"
  proof -
    let ?p0 = "newProgram\<lparr>sources := [cyclicSourceA, cyclicSourceB, reexportSourceMain],
                 target := WASM32, types := initialTypes WASM32\<rparr>"
    have B: "initializeSources (sources ?p0) (?p0, [], []) = Inr (?p0, ?qes, [?qi])"
      by (simp add: binder_queue_eval cyclicSourceA_def cyclicSourceB_def reexportSourceMain_def)
    have L: "tryResolveImport ?p0 ?qes ''b/f'' = None"
      by (rule tryResolveImport_cycle[where qe = ?qb]) (simp_all add: get_def newProgram_def)
    then have "resolveQueuedImports [?qi] ?qes ?p0 = None" by simp
    with B show ?thesis by (simp add: initialize_def)
  qed
  from first second show ?thesis by simp
qed

end
